theory Spec2Isabelle
  imports Main "HOL-Library.Word"
begin

section \<open>JavaScript values, objects and strings\<close>

text \<open>
  The client in \<^verbatim>\<open>src/two_captcha_client.js\<close> passes option objects and payload
  objects around. A property value is one of the kinds the documented options take; a
  Buffer holds bytes.
\<close>

type_synonym bytes = "8 word list"

datatype jsval = Undefined | Str string | Num int | Bool bool | Buf bytes

text \<open>An object literal: properties in insertion order, each name at most once.\<close>

type_synonym obj = "(string \<times> jsval) list"

text \<open>\<^verbatim>\<open>o.k\<close>: the value of the property, \<^verbatim>\<open>undefined\<close> when the object has none.\<close>

fun get_prop :: "obj \<Rightarrow> string \<Rightarrow> jsval" where
  "get_prop [] k = Undefined"
| "get_prop ((k', v) # ps) k = (if k' = k then v else get_prop ps k)"

text \<open>\<^verbatim>\<open>o.k = v\<close>: replaces the value in place, or appends a new property.\<close>

fun assign :: "string \<Rightarrow> jsval \<Rightarrow> obj \<Rightarrow> obj" where
  "assign k v [] = [(k, v)]"
| "assign k v ((k', v') # ps) = (if k' = k then (k, v) # ps else (k', v') # assign k v ps)"

text \<open>\<^verbatim>\<open>delete o.k\<close>.\<close>

fun delete_prop :: "string \<Rightarrow> obj \<Rightarrow> obj" where
  "delete_prop k [] = []"
| "delete_prop k ((k', v') # ps) = (if k' = k then delete_prop k ps else (k', v') # delete_prop k ps)"

text \<open>\<^verbatim>\<open>{ ...a, ...b }\<close>: the properties of \<open>b\<close> are assigned onto \<open>a\<close>, in order.\<close>

fun spread :: "obj \<Rightarrow> obj \<Rightarrow> obj" where
  "spread a [] = a"
| "spread a ((k, v) # ps) = spread (assign k v a) ps"

text \<open>Truthiness, as \<^verbatim>\<open>if (v)\<close>, \<^verbatim>\<open>!v\<close>, \<^verbatim>\<open>v ? a : b\<close> and \<^verbatim>\<open>v || d\<close> test it.\<close>

fun truthy :: "jsval \<Rightarrow> bool" where
  "truthy Undefined = False"
| "truthy (Str s) = (s \<noteq> [])"
| "truthy (Num n) = (n \<noteq> 0)"
| "truthy (Bool b) = b"
| "truthy (Buf bs) = True"

fun typeof :: "jsval \<Rightarrow> string" where
  "typeof Undefined = ''undefined''"
| "typeof (Str s) = ''string''"
| "typeof (Num n) = ''number''"
| "typeof (Bool b) = ''boolean''"
| "typeof (Buf bs) = ''object''"

text \<open>A string that may be \<^verbatim>\<open>undefined\<close>, as a property value.\<close>

fun of_opt :: "string option \<Rightarrow> jsval" where
  "of_opt None = Undefined"
| "of_opt (Some s) = Str s"

text \<open>\<^verbatim>\<open>s.split(sep)\<close> for a one-character separator: never the empty array.\<close>

fun split_on :: "char \<Rightarrow> string \<Rightarrow> string list" where
  "split_on sep [] = [[]]"
| "split_on sep (c # cs) =
     (if c = sep then [] # split_on sep cs
      else (case split_on sep cs of
              [] \<Rightarrow> [[c]]
            | f # fs \<Rightarrow> (c # f) # fs))"

text \<open>\<^verbatim>\<open>s.split(sep, limit)\<close> keeps the first \<open>limit\<close> fields and drops the rest.\<close>

definition js_split :: "string \<Rightarrow> char \<Rightarrow> nat \<Rightarrow> string list" where
  "js_split s sep limit = take limit (split_on sep s)"

text \<open>\<^verbatim>\<open>xs[i]\<close>: \<^verbatim>\<open>undefined\<close> out of range, never an exception.\<close>

definition at_index :: "'a list \<Rightarrow> nat \<Rightarrow> 'a option" where
  "at_index xs i = (if i < length xs then Some (xs ! i) else None)"

text \<open>The expression \<^verbatim>\<open>res.split('|', 2)[1]\<close> of \<^verbatim>\<open>captcha\<close> and \<^verbatim>\<open>_upload\<close>.\<close>

definition second_field :: "string \<Rightarrow> string option" where
  "second_field res = at_index (js_split res (CHR ''|'') 2) 1"

text \<open>\<^verbatim>\<open>s.includes(pat)\<close>.\<close>

fun js_includes :: "string \<Rightarrow> string \<Rightarrow> bool" where
  "js_includes [] pat = (pat = [])"
| "js_includes (c # cs) pat = (take (length pat) (c # cs) = pat \<or> js_includes cs pat)"

subsection \<open>Base64 of a Buffer\<close>

text \<open>
  \<^verbatim>\<open>buffer.toString('base64')\<close> of the platform: three bytes become four characters of
  the standard alphabet, a last group of one or two bytes is padded with \<^verbatim>\<open>=\<close>.
\<close>

definition b64_alphabet :: string where
  "b64_alphabet = ''ABCDEFGHIJKLMNOPQRSTUVWXYZabcdefghijklmnopqrstuvwxyz0123456789+/''"

definition b64_char :: "nat \<Rightarrow> char" where
  "b64_char i = b64_alphabet ! (i mod 64)"

fun base64 :: "bytes \<Rightarrow> string" where
  "base64 [] = []"
| "base64 [a] =
     (let n = unat a * 65536
      in [b64_char (n div 262144), b64_char (n div 4096), CHR ''='', CHR ''=''])"
| "base64 [a, b] =
     (let n = unat a * 65536 + unat b * 256
      in [b64_char (n div 262144), b64_char (n div 4096), b64_char (n div 64), CHR ''=''])"
| "base64 (a # b # c # rest) =
     (let n = unat a * 65536 + unat b * 256 + unat c
      in [b64_char (n div 262144), b64_char (n div 4096), b64_char (n div 64), b64_char n]
         @ base64 rest)"

section \<open>The client, its collaborators and the world\<close>

text \<open>The fields the constructor stores: \<^verbatim>\<open>key\<close>, \<^verbatim>\<open>timeout\<close>, \<^verbatim>\<open>polling\<close>, \<^verbatim>\<open>throwErrors\<close>.\<close>

record client =
  key :: jsval
  timeout :: int
  polling :: int
  throwErrors :: bool

text \<open>The argument of \<^verbatim>\<open>HTTPRequest.request\<close>, as \<^verbatim>\<open>_request\<close> builds it.\<close>

record http_request =
  url :: string
  http_timeout :: int
  http_method :: string
  payload :: obj

text \<open>What the transport gives back: a response body, or a rejection.\<close>

datatype reply = Body string | Failed string

text \<open>
  Everything a call can observe or change outside the client: the clock that
  \<^verbatim>\<open>Date.now()\<close> reads (milliseconds), the requests handed to the transport with their
  replies, the arguments of \<^verbatim>\<open>_sleep\<close>, and the messages given to \<^verbatim>\<open>console.warn\<close>.
\<close>

record world =
  clock :: int
  traffic :: "(http_request \<times> reply) list"
  naps :: "int list"
  warned :: "string list"

text \<open>
  Modelled from the spec: the modules \<^verbatim>\<open>./constants\<close>, \<^verbatim>\<open>./http_request\<close> and
  \<^verbatim>\<open>./captcha\<close> are required by the client and are not part of the sources at hand.
  They are taken as parameters: \<open>errors\<close> is the table \<^verbatim>\<open>constants.errors\<close> from known
  remote error codes to messages; \<open>transport\<close> is the function \<^verbatim>\<open>HTTPRequest.request\<close>,
  returning a plain response body (or failing) after some milliseconds; \<open>readFile\<close> and
  \<open>openDataURL\<close> are the byte-source loaders, returning raw bytes (or failing). Each may
  depend on the world at the time of the call.
\<close>

record env =
  errors :: "string \<Rightarrow> string option"
  transport :: "world \<Rightarrow> http_request \<Rightarrow> nat \<times> reply"
  readFile :: "world \<Rightarrow> jsval \<Rightarrow> nat \<times> bytes option"
  openDataURL :: "world \<Rightarrow> jsval \<Rightarrow> nat \<times> bytes option"

text \<open>
  Modelled from the spec: a \<^verbatim>\<open>Captcha\<close> holds the task identifier, the raw response
  payload and the extracted solution text; a fresh one has none of them.
\<close>

record Captcha =
  captcha_id :: "string option"
  apiResponse :: "string option"
  captcha_text :: "string option"

definition new_Captcha :: Captcha where
  "new_Captcha = \<lparr>captcha_id = None, apiResponse = None, captcha_text = None\<rparr>"

text \<open>
  What a call can raise: \<^verbatim>\<open>new Error(message)\<close> from \<^verbatim>\<open>_throwError\<close>, the platform's
  RangeError and TypeError, and a failure of a collaborator (transport, file system, remote fetch).
\<close>

datatype js_error = Error string | RangeError string | TypeError string | External string

text \<open>An asynchronous method: from the world before to its outcome and the world after.\<close>

type_synonym 'a io = "world \<Rightarrow> (js_error + 'a) \<times> world"

definition resolve :: "'a \<Rightarrow> 'a io" where
  "resolve x w = (Inr x, w)"

definition raise :: "js_error \<Rightarrow> 'a io" where
  "raise e w = (Inl e, w)"

text \<open>\<^verbatim>\<open>let x = await m; f x\<close>: an exception of \<open>m\<close> ends the method.\<close>

definition await :: "'a io \<Rightarrow> ('a \<Rightarrow> 'b io) \<Rightarrow> 'b io" where
  "await m f w = (case m w of (Inl e, w') \<Rightarrow> (Inl e, w') | (Inr x, w') \<Rightarrow> f x w')"

section \<open>The client's methods\<close>

text \<open>
  \<^verbatim>\<open>_throwError(message)\<close>: the message of the "not solved yet" condition is never an
  error; otherwise the error is thrown when \<^verbatim>\<open>throwErrors\<close> is set, and warned about
  when it is not. Without a throw the method returns \<^verbatim>\<open>false\<close>.
\<close>

definition throwError :: "client \<Rightarrow> string \<Rightarrow> bool io" where
  "throwError c message w =
     (if message = ''Your captcha is not solved yet.'' then (Inr False, w)
      else if throwErrors c then (Inl (Error message), w)
      else (Inr False, w\<lparr>warned := warned w @ [message]\<rparr>))"

text \<open>
  \<^verbatim>\<open>_validateResponse(body)\<close>. Its variable \<^verbatim>\<open>message\<close> is the table's entry for the
  body when that entry is truthy, the "unknown error" text when the body is empty or
  includes \<^verbatim>\<open>ERROR\<close>; in the remaining case the method returns \<^verbatim>\<open>true\<close> at once,
  which is \<open>None\<close> here.
\<close>

definition response_message :: "env \<Rightarrow> string \<Rightarrow> string option" where
  "response_message e body =
     (if truthy (of_opt (errors e body)) then errors e body
      else if body = [] \<or> js_includes body ''ERROR''
        then Some (''Unknown 2Captcha error: '' @ body)
      else None)"

definition validateResponse :: "client \<Rightarrow> env \<Rightarrow> string \<Rightarrow> bool io" where
  "validateResponse c e body w =
     (case response_message e body of
        None \<Rightarrow> (Inr True, w)
      | Some message \<Rightarrow> throwError c message w)"

text \<open>The object \<^verbatim>\<open>_request\<close> hands to the transport.\<close>

definition mk_request :: "client \<Rightarrow> string \<Rightarrow> string \<Rightarrow> obj \<Rightarrow> http_request" where
  "mk_request c action meth pl =
     \<lparr>url = ''https://rucaptcha.com/'' @ action @ ''.php'',
      http_timeout = timeout c,
      http_method = meth,
      payload = spread pl [(''key'', key c), (''soft_id'', Num 2386)]\<rparr>"

text \<open>
  \<^verbatim>\<open>await HTTPRequest.request(req)\<close>: the transport takes its time, the exchange is
  recorded, and a rejection is an exception.
\<close>

definition delivered :: "world \<Rightarrow> nat \<Rightarrow> http_request \<Rightarrow> reply \<Rightarrow> world" where
  "delivered w d req r = w\<lparr>clock := clock w + int d, traffic := traffic w @ [(req, r)]\<rparr>"

definition call_transport :: "env \<Rightarrow> http_request \<Rightarrow> string io" where
  "call_transport e req w =
     (let (d, r) = transport e w req; w1 = delivered w d req r
      in case r of
           Failed msg \<Rightarrow> (Inl (External msg), w1)
         | Body b \<Rightarrow> (Inr b, w1))"

text \<open>\<^verbatim>\<open>_request(action, method, payload)\<close>: the body is validated, then returned.\<close>

definition request :: "client \<Rightarrow> env \<Rightarrow> string \<Rightarrow> string \<Rightarrow> obj \<Rightarrow> string io" where
  "request c e action meth pl =
     await (call_transport e (mk_request c action meth pl))
       (\<lambda>req. await (validateResponse c e req) (\<lambda>_. resolve req))"

text \<open>\<^verbatim>\<open>captcha(captchaId)\<close>: one poll.\<close>

definition captcha :: "client \<Rightarrow> env \<Rightarrow> string option \<Rightarrow> Captcha io" where
  "captcha c e captchaId =
     await (request c e ''res'' ''get'' [(''id'', of_opt captchaId), (''action'', Str ''get'')])
       (\<lambda>res. resolve \<lparr>captcha_id = captchaId, apiResponse = Some res,
                        captcha_text = second_field res\<rparr>)"

text \<open>The requests that a poll and a report hand to the transport.\<close>

definition poll_request :: "client \<Rightarrow> string option \<Rightarrow> http_request" where
  "poll_request c captchaId =
     mk_request c ''res'' ''get'' [(''id'', of_opt captchaId), (''action'', Str ''get'')]"

text \<open>\<^verbatim>\<open>report(captchaId, bad)\<close>.\<close>

definition report :: "client \<Rightarrow> env \<Rightarrow> string option \<Rightarrow> bool \<Rightarrow> bool io" where
  "report c e captchaId bad =
     await (request c e ''res'' ''get''
              [(''action'', Str (if bad then ''reportbad'' else ''reportgood'')),
               (''id'', of_opt captchaId)])
       (\<lambda>res. resolve (res = ''OK_REPORT_RECORDED''))"

definition report_request :: "client \<Rightarrow> string option \<Rightarrow> bool \<Rightarrow> http_request" where
  "report_request c captchaId bad =
     mk_request c ''res'' ''get''
       [(''action'', Str (if bad then ''reportbad'' else ''reportgood'')), (''id'', of_opt captchaId)]"

text \<open>
  \<^verbatim>\<open>setTimeout(resolve, ms)\<close> of the platform waits \<open>ms\<close> milliseconds, and one
  millisecond when \<open>ms\<close> is below 1 or above \<open>2\<^sup>3\<^sup>1 - 1\<close>.
\<close>

definition timer_delay :: "int \<Rightarrow> int" where
  "timer_delay ms = (if ms < 1 \<or> 2147483647 < ms then 1 else ms)"

text \<open>\<^verbatim>\<open>_sleep(ms)\<close>.\<close>

definition sleep :: "int \<Rightarrow> unit io" where
  "sleep ms w = (Inr (), w\<lparr>clock := clock w + timer_delay ms, naps := naps w @ [ms]\<rparr>)"

text \<open>\<^verbatim>\<open>buffer.toString('base64')\<close> on the kinds of value that can be truthy.\<close>

fun toString_base64 :: "jsval \<Rightarrow> jsval io" where
  "toString_base64 (Buf bs) = resolve (Str (base64 bs))"
| "toString_base64 (Str s) = resolve (Str s)"
| "toString_base64 (Bool b) = resolve (Str (if b then ''true'' else ''false''))"
| "toString_base64 (Num n) = raise (RangeError ''toString() radix must be between 2 and 36'')"
| "toString_base64 Undefined = raise (TypeError ''Cannot read properties of undefined'')"

text \<open>The two loaders, each taking its time.\<close>

definition load_bytes :: "(world \<Rightarrow> jsval \<Rightarrow> nat \<times> bytes option) \<Rightarrow> jsval \<Rightarrow> bytes io" where
  "load_bytes loader src w =
     (let (d, r) = loader w src; w1 = w\<lparr>clock := clock w + int d\<rparr>
      in case r of
           None \<Rightarrow> (Inl (External ''load failed''), w1)
         | Some bs \<Rightarrow> (Inr bs, w1))"

text \<open>\<^verbatim>\<open>_loadCaptcha(options)\<close>: the first truthy source of the four, as base64.\<close>

definition loadCaptcha :: "client \<Rightarrow> env \<Rightarrow> obj \<Rightarrow> jsval io" where
  "loadCaptcha c e options =
     (if truthy (get_prop options ''base64'') then resolve (get_prop options ''base64'')
      else if truthy (get_prop options ''buffer'') then toString_base64 (get_prop options ''buffer'')
      else if truthy (get_prop options ''path'') then
        await (load_bytes (readFile e) (get_prop options ''path''))
          (\<lambda>fileBinary. resolve (Str (base64 fileBinary)))
      else if truthy (get_prop options ''url'') then
        await (load_bytes (openDataURL e) (get_prop options ''url''))
          (\<lambda>image. resolve (Str (base64 image)))
      else await (throwError c ''No image data received'') (\<lambda>_. resolve Undefined))"

text \<open>\<^verbatim>\<open>_upload(options)\<close>: the submission.\<close>

definition upload_args :: "obj \<Rightarrow> obj" where
  "upload_args options =
     (let args = [];
          args = (if truthy (get_prop options ''base64'')
                  then assign ''body'' (get_prop options ''base64'') args else args);
          args = assign ''method''
                   (if truthy (get_prop options ''method'') then get_prop options ''method''
                    else Str ''base64'') args;
          args = spread args options;
          args = delete_prop ''base64'' args;
          args = delete_prop ''buffer'' args;
          args = delete_prop ''path'' args;
          args = delete_prop ''url'' args
      in args)"

definition upload_request :: "client \<Rightarrow> obj \<Rightarrow> http_request" where
  "upload_request c options = mk_request c ''in'' ''post'' (upload_args options)"

definition upload :: "client \<Rightarrow> env \<Rightarrow> obj \<Rightarrow> Captcha io" where
  "upload c e options =
     await (request c e ''in'' ''post'' (upload_args options))
       (\<lambda>res. await (validateResponse c e res)
          (\<lambda>_. resolve (new_Captcha\<lparr>captcha_id := second_field res\<rparr>)))"

text \<open>
  The polling loop that ends each of the four \<^verbatim>\<open>decode\<close> methods; they differ in the
  argument \<open>ms\<close> of \<^verbatim>\<open>_sleep\<close> only:
  \<^verbatim>\<open>
  while (!decodedCaptcha.text) {
    await this._sleep(ms);
    if (Date.now() - startedAt > this.timeout) {
      this._throwError('Captcha timeout');
      return;
    }
    decodedCaptcha = await this.captcha(decodedCaptcha.id);
  }
  return decodedCaptcha;
  \<close>
  The result \<open>None\<close> is the \<^verbatim>\<open>undefined\<close> of the bare \<^verbatim>\<open>return\<close>.
\<close>

function poll_loop :: "client \<Rightarrow> env \<Rightarrow> int \<Rightarrow> int \<Rightarrow> Captcha \<Rightarrow> Captcha option io" where
  "poll_loop c e startedAt ms decodedCaptcha w =
     (if truthy (of_opt (captcha_text decodedCaptcha)) then (Inr (Some decodedCaptcha), w)
      else
        (case sleep ms w of
           (Inl err, w1) \<Rightarrow> (Inl err, w1)
         | (Inr _, w1) \<Rightarrow>
             if clock w1 - startedAt > timeout c then
               (case throwError c ''Captcha timeout'' w1 of
                  (Inl err, w2) \<Rightarrow> (Inl err, w2)
                | (Inr _, w2) \<Rightarrow> (Inr None, w2))
             else
               (case captcha c e (captcha_id decodedCaptcha) w1 of
                  (Inl err, w2) \<Rightarrow> (Inl err, w2)
                | (Inr next, w2) \<Rightarrow> poll_loop c e startedAt ms next w2)))"
  by pat_completeness auto
termination
proof (relation "measure (\<lambda>(c, e, startedAt, ms, cap, w). nat (timeout c - (clock w - startedAt) + 1))",
       goal_cases)
  case 1
  show ?case by simp
next
  case (2 c e startedAt ms decodedCaptcha w x w1 u y w2 nxt)
  have a: "clock w1 = clock w + timer_delay ms"
    using 2 by (auto simp: sleep_def)
  have b: "clock w1 \<le> clock w2"
    using 2
    by (auto simp: captcha_def request_def call_transport_def delivered_def await_def
        resolve_def validateResponse_def throwError_def Let_def
        split: prod.splits reply.splits sum.splits if_splits option.splits)
  have d: "1 \<le> timer_delay ms"
    by (simp add: timer_delay_def)
  have "\<not> timeout c < clock w1 - startedAt"
    using 2 by simp
  then show ?case using a b d by simp
qed

declare poll_loop.simps [simp del]

text \<open>A statement \<^verbatim>\<open>if (cond) this._throwError(message);\<close> whose value is dropped.\<close>

definition check :: "client \<Rightarrow> bool \<Rightarrow> string \<Rightarrow> unit io" where
  "check c cond message =
     (if cond then await (throwError c message) (\<lambda>_. resolve ()) else resolve ())"

text \<open>\<^verbatim>\<open>decode(options)\<close>: an image captcha; the loop sleeps \<^verbatim>\<open>this.polling\<close>.\<close>

definition decode :: "client \<Rightarrow> env \<Rightarrow> obj \<Rightarrow> Captcha option io" where
  "decode c e options w =
     (let startedAt = clock w
      in await (check c (typeof (key c) \<noteq> ''string'') ''2Captcha key must be a string'')
           (\<lambda>_. await (loadCaptcha c e options)
           (\<lambda>base64. await (upload c e (assign ''base64'' base64 options))
           (\<lambda>decodedCaptcha. poll_loop c e startedAt (polling c) decodedCaptcha))) w)"

text \<open>\<^verbatim>\<open>cond ? 1 : 0\<close>.\<close>

definition flag :: "jsval \<Rightarrow> jsval" where
  "flag v = Num (if truthy v then 1 else 0)"

text \<open>\<^verbatim>\<open>decodeRecaptchaV2(options)\<close>; the loop sleeps \<^verbatim>\<open>Math.max(this.polling, 10)\<close>.\<close>

definition decodeRecaptchaV2 :: "client \<Rightarrow> env \<Rightarrow> obj \<Rightarrow> Captcha option io" where
  "decodeRecaptchaV2 c e options w =
     (let startedAt = clock w
      in await (check c (get_prop options ''googlekey'' = Str []) ''Missing googlekey parameter'')
           (\<lambda>_. await (check c (get_prop options ''pageurl'' = Str []) ''Missing pageurl parameter'')
           (\<lambda>_. let upload_options =
                    [(''method'', Str ''userrecaptcha''),
                     (''googlekey'', get_prop options ''googlekey''),
                     (''pageurl'', get_prop options ''pageurl''),
                     (''invisible'', flag (get_prop options ''invisible'')),
                     (''enterprise'', flag (get_prop options ''enterprise''))]
                 in await (upload c e upload_options)
           (\<lambda>decodedCaptcha. poll_loop c e startedAt (max (polling c) 10) decodedCaptcha))) w)"

text \<open>\<^verbatim>\<open>decodeRecaptchaV3(options)\<close>.\<close>

definition decodeRecaptchaV3 :: "client \<Rightarrow> env \<Rightarrow> obj \<Rightarrow> Captcha option io" where
  "decodeRecaptchaV3 c e options w =
     (let startedAt = clock w
      in await (check c (get_prop options ''googlekey'' = Str []) ''Missing googlekey parameter'')
           (\<lambda>_. await (check c (get_prop options ''pageurl'' = Str []) ''Missing pageurl parameter'')
           (\<lambda>_. let upload_options =
                    [(''method'', Str ''userrecaptcha''),
                     (''googlekey'', get_prop options ''googlekey''),
                     (''pageurl'', get_prop options ''pageurl''),
                     (''version'', Str ''v3''),
                     (''action'', if truthy (get_prop options ''action'')
                                  then get_prop options ''action'' else Str []),
                     (''enterprise'', flag (get_prop options ''enterprise''))]
                 in await (upload c e upload_options)
           (\<lambda>decodedCaptcha. poll_loop c e startedAt (max (polling c) 10) decodedCaptcha))) w)"

text \<open>\<^verbatim>\<open>decodeHCaptcha(options)\<close>.\<close>

definition decodeHCaptcha :: "client \<Rightarrow> env \<Rightarrow> obj \<Rightarrow> Captcha option io" where
  "decodeHCaptcha c e options w =
     (let startedAt = clock w
      in await (check c (get_prop options ''sitekey'' = Str []) ''Missing sitekey parameter'')
           (\<lambda>_. await (check c (get_prop options ''pageurl'' = Str []) ''Missing pageurl parameter'')
           (\<lambda>_. let upload_options =
                    [(''method'', Str ''hcaptcha''),
                     (''sitekey'', get_prop options ''sitekey''),
                     (''pageurl'', get_prop options ''pageurl''),
                     (''invisible'', flag (get_prop options ''invisible''))]
                 in await (upload c e upload_options)
           (\<lambda>decodedCaptcha. poll_loop c e startedAt (max (polling c) 10) decodedCaptcha))) w)"


text \<open>
  The conditions under which a call of one of the four operations gets past its checks
  and its submission and into its polling loop, whose sleeps have the argument \<open>ms\<close>:
  the transport answers every submission with a valid body; with \<^verbatim>\<open>throwErrors\<close> set,
  the fields that the operation checks are not the empty string (for an image: the key
  is a string); and for an image the source loads.
\<close>

definition gets_to_polling ::
    "client \<Rightarrow> env \<Rightarrow> (client \<Rightarrow> env \<Rightarrow> obj \<Rightarrow> Captcha option io) \<Rightarrow> int \<Rightarrow> obj \<Rightarrow> bool" where
  "gets_to_polling c e operation ms options \<longleftrightarrow>
     (\<forall>opts w. \<exists>d body. transport e w (upload_request c opts) = (d, Body body)
        \<and> response_message e body = None)
     \<and> ((operation = decode \<and> ms = polling c
          \<and> (throwErrors c \<longrightarrow> typeof (key c) = ''string'')
          \<and> (\<forall>w. \<exists>b64 w0. loadCaptcha c e options w = (Inr b64, w0)))
        \<or> ((operation = decodeRecaptchaV2 \<or> operation = decodeRecaptchaV3)
            \<and> ms = max (polling c) 10
            \<and> (throwErrors c \<longrightarrow> get_prop options ''googlekey'' \<noteq> Str []
                                 \<and> get_prop options ''pageurl'' \<noteq> Str []))
        \<or> (operation = decodeHCaptcha \<and> ms = max (polling c) 10
            \<and> (throwErrors c \<longrightarrow> get_prop options ''sitekey'' \<noteq> Str []
                                 \<and> get_prop options ''pageurl'' \<noteq> Str [])))"

section \<open>A sample environment\<close>

text \<open>
  Concrete collaborators on which the theorems below are exercised: a table with two of
  the service's codes, a transport that answers the \<open>n\<close>-th request with the \<open>n\<close>-th
  body of a script (and with \<open>dflt\<close> once the script is used up) after \<open>d\<close>
  milliseconds, and loaders that know one file and one URL. In \<open>sample_pending_env\<close>
  the transport accepts every submission and answers every poll with "not ready".
\<close>

definition sample_errors :: "string \<Rightarrow> string option" where
  "sample_errors body =
     (if body = ''CAPCHA_NOT_READY'' then Some ''Your captcha is not solved yet.''
      else if body = ''ERROR_ZERO_BALANCE'' then Some ''Your account has zero balance.''
      else None)"

definition scripted :: "nat \<Rightarrow> string list \<Rightarrow> string \<Rightarrow> world \<Rightarrow> http_request \<Rightarrow> nat \<times> reply" where
  "scripted d bodies dflt w req =
     (d, Body (if length (traffic w) < length bodies then bodies ! length (traffic w) else dflt))"

definition sample_bytes :: bytes where
  "sample_bytes = [77, 97, 110]"

definition sample_loader :: "jsval \<Rightarrow> world \<Rightarrow> jsval \<Rightarrow> nat \<times> bytes option" where
  "sample_loader known w src = (3, if src = known then Some sample_bytes else None)"

definition sample_env :: "string list \<Rightarrow> string \<Rightarrow> env" where
  "sample_env bodies dflt =
     \<lparr>errors = sample_errors,
      transport = scripted 2 bodies dflt,
      readFile = sample_loader (Str ''/tmp/captcha.png''),
      openDataURL = sample_loader (Str ''http://example.com/captcha.png'')\<rparr>"

definition sample_pending_env :: env where
  "sample_pending_env =
     \<lparr>errors = sample_errors,
      transport = (\<lambda>w req. (2, Body (if url req = ''https://rucaptcha.com/in.php''
                                       then ''OK|77'' else ''CAPCHA_NOT_READY''))),
      readFile = sample_loader (Str ''/tmp/captcha.png''),
      openDataURL = sample_loader (Str ''http://example.com/captcha.png'')\<rparr>"

definition sample_client :: "bool \<Rightarrow> client" where
  "sample_client throwing =
     \<lparr>key = Str ''0123456789abcdef'', timeout = 50, polling = 20, throwErrors = throwing\<rparr>"

definition start :: world where
  "start = \<lparr>clock = 1000, traffic = [], naps = [], warned = []\<rparr>"

section \<open>Strings: substrings and fields\<close>

lemma js_includes_iff: "js_includes s pat \<longleftrightarrow> (\<exists>u v. s = u @ pat @ v)"
proof (induction s)
  case Nil
  then show ?case by auto
next
  case (Cons c cs)
  have "take (length pat) (c # cs) = pat \<longleftrightarrow> (\<exists>v. c # cs = pat @ v)"
    by (metis append_eq_conv_conj append_take_drop_id)
  moreover have "(\<exists>u v. c # cs = u @ pat @ v) \<longleftrightarrow> (\<exists>v. c # cs = pat @ v) \<or> (\<exists>u v. cs = u @ pat @ v)"
  proof
    assume "\<exists>u v. c # cs = u @ pat @ v"
    then obtain u v where uv: "c # cs = u @ pat @ v" by blast
    show "(\<exists>v. c # cs = pat @ v) \<or> (\<exists>u v. cs = u @ pat @ v)"
    proof (cases u)
      case Nil
      then show ?thesis using uv by auto
    next
      case (Cons a u')
      then have "cs = u' @ pat @ v" using uv by simp
      then show ?thesis by blast
    qed
  next
    assume "(\<exists>v. c # cs = pat @ v) \<or> (\<exists>u v. cs = u @ pat @ v)"
    then show "\<exists>u v. c # cs = u @ pat @ v"
    proof
      assume "\<exists>v. c # cs = pat @ v"
      then show ?thesis by (metis append_Nil)
    next
      assume "\<exists>u v. cs = u @ pat @ v"
      then obtain u v where "cs = u @ pat @ v" by blast
      then have "c # cs = (c # u) @ pat @ v" by simp
      then show ?thesis by blast
    qed
  qed
  ultimately show ?case using Cons.IH by simp
qed

lemma split_on_nonempty: "split_on sep s \<noteq> []"
  by (induction s) (auto split: list.splits)

lemma length_split_on: "length (split_on sep s) = Suc (length (filter (\<lambda>c. c = sep) s))"
  by (induction s) (auto split: list.splits simp: split_on_nonempty)

lemma split_on_no_sep: "sep \<notin> set s \<Longrightarrow> split_on sep s = [s]"
  by (induction s) auto

lemma split_on_append: "sep \<notin> set a \<Longrightarrow> split_on sep (a @ sep # b) = a # split_on sep b"
  by (induction a) auto

lemma hd_split_on: "hd (split_on sep s) = takeWhile (\<lambda>c. c \<noteq> sep) s"
  by (induction s) (auto split: list.splits simp: split_on_nonempty)

lemma second_field_None: "CHR ''|'' \<notin> set body \<Longrightarrow> second_field body = None"
  by (simp add: second_field_def js_split_def at_index_def split_on_no_sep)

lemma second_field_Some:
  assumes "CHR ''|'' \<notin> set a"
  shows "second_field (a @ CHR ''|'' # b) = Some (takeWhile (\<lambda>c. c \<noteq> CHR ''|'') b)"
proof -
  obtain f fs where s: "split_on (CHR ''|'') b = f # fs"
    using split_on_nonempty by (cases "split_on (CHR ''|'') b") auto
  then have "f = takeWhile (\<lambda>c. c \<noteq> CHR ''|'') b"
    using hd_split_on[of "CHR ''|''" b] by simp
  then show ?thesis
    using assms s by (simp add: second_field_def js_split_def at_index_def split_on_append numeral_2_eq_2)
qed

lemma second_field_None_iff: "second_field body = None \<longleftrightarrow> CHR ''|'' \<notin> set body"
proof
  assume n: "second_field body = None"
  show "CHR ''|'' \<notin> set body"
  proof
    assume "CHR ''|'' \<in> set body"
    then obtain a b where "body = a @ CHR ''|'' # b" "CHR ''|'' \<notin> set a"
      by (meson split_list_first)
    then show False using n second_field_Some by simp
  qed
qed (rule second_field_None)

section \<open>Errors, validation and the transport\<close>

lemma throwError_pending:
  "throwError c ''Your captcha is not solved yet.'' w = (Inr False, w)"
  by (simp add: throwError_def)

lemma throwError_throw:
  "throwErrors c \<Longrightarrow> message \<noteq> ''Your captcha is not solved yet.'' \<Longrightarrow>
   throwError c message w = (Inl (Error message), w)"
  by (simp add: throwError_def)

lemma throwError_warn:
  "\<not> throwErrors c \<Longrightarrow> message \<noteq> ''Your captcha is not solved yet.'' \<Longrightarrow>
   throwError c message w = (Inr False, w\<lparr>warned := warned w @ [message]\<rparr>)"
  by (simp add: throwError_def)

lemma validateResponse_valid:
  "response_message e body = None \<Longrightarrow> validateResponse c e body w = (Inr True, w)"
  by (simp add: validateResponse_def)

lemma validateResponse_message:
  "response_message e body = Some m \<Longrightarrow> validateResponse c e body w = throwError c m w"
  by (simp add: validateResponse_def)

lemma call_transport_Body:
  "transport e w req = (d, Body b) \<Longrightarrow>
   call_transport e req w = (Inr b, delivered w d req (Body b))"
  by (simp add: call_transport_def)

lemma call_transport_Failed:
  "transport e w req = (d, Failed msg) \<Longrightarrow>
   call_transport e req w = (Inl (External msg), delivered w d req (Failed msg))"
  by (simp add: call_transport_def)

lemma request_Body:
  "transport e w (mk_request c action meth pl) = (d, Body b) \<Longrightarrow>
   request c e action meth pl w =
     (case validateResponse c e b (delivered w d (mk_request c action meth pl) (Body b)) of
        (Inl err, w') \<Rightarrow> (Inl err, w')
      | (Inr _, w') \<Rightarrow> (Inr b, w'))"
  by (simp add: request_def await_def call_transport_Body resolve_def split: prod.splits sum.splits)

lemma response_message_known:
  "errors e body = Some m \<Longrightarrow> m \<noteq> [] \<Longrightarrow> response_message e body = Some m"
  by (simp add: response_message_def)

lemma response_message_table:
  assumes "\<forall>b m. errors e b = Some m \<longrightarrow> m \<noteq> []"
  shows "response_message e body =
     (case errors e body of
        Some m \<Rightarrow> Some m
      | None \<Rightarrow> if body = [] \<or> (\<exists>u v. body = u @ ''ERROR'' @ v)
                then Some (''Unknown 2Captcha error: '' @ body) else None)"
  using assms by (auto simp: response_message_def js_includes_iff split: option.splits)

section \<open>The shared response validator\<close>

text \<open>
  Claim C9. The validator that \<^verbatim>\<open>_request\<close> applies to every response body (and so
  submission, poll and report share it) sorts a body into exactly three classes: a body
  that is a known code of the table is handled as that remote error, with the table's
  message; a body that is no known code and is empty or contains the substring
  \<^verbatim>\<open>ERROR\<close> is handled as an unknown remote error whose message carries the body; any
  other body is valid, and the validator returns \<^verbatim>\<open>true\<close> and leaves the world as it
  is. The table is the one of \<^verbatim>\<open>constants.errors\<close>, whose messages are not empty.
\<close>

theorem validateResponse_taxonomy:
  assumes "\<forall>b m. errors e b = Some m \<longrightarrow> m \<noteq> []"
  shows "validateResponse c e body w =
     (case errors e body of
        Some m \<Rightarrow> throwError c m w
      | None \<Rightarrow>
          if body = [] \<or> (\<exists>u v. body = u @ ''ERROR'' @ v)
          then throwError c (''Unknown 2Captcha error: '' @ body) w
          else (Inr True, w))"
proof (cases "errors e body")
  case None
  then show ?thesis
    using response_message_table[OF assms, of body] by (simp add: validateResponse_def)
next
  case (Some m)
  then show ?thesis
    using response_message_table[OF assms, of body] by (simp add: validateResponse_def)
qed

text \<open>The taxonomy on the sample table: a known code in throwing mode, and a valid body.\<close>

theorem validateResponse_taxonomy_witness:
  "validateResponse (sample_client True) (sample_env [] []) ''ERROR_ZERO_BALANCE'' start
     = (Inl (Error ''Your account has zero balance.''), start)
   \<and> validateResponse (sample_client True) (sample_env [] []) ''OK|77'' start = (Inr True, start)"
proof -
  have t: "\<forall>b m. errors (sample_env [] []) b = Some m \<longrightarrow> m \<noteq> []"
    by (simp add: sample_env_def sample_errors_def)
  have u: "\<not> (\<exists>u v. ''OK|77'' = u @ ''ERROR'' @ v)"
    using js_includes_iff[of "''OK|77''" "''ERROR''"] by simp
  show ?thesis
    using validateResponse_taxonomy[OF t, of "sample_client True" "''ERROR_ZERO_BALANCE''" start]
          validateResponse_taxonomy[OF t, of "sample_client True" "''OK|77''" start] u
    by (simp add: sample_env_def sample_errors_def throwError_def sample_client_def)
qed

section \<open>Submission and poll on a single response\<close>

lemma upload_Body:
  "transport e w (mk_request c ''in'' ''post'' (upload_args options)) = (d, Body b) \<Longrightarrow>
   upload c e options w =
     (case validateResponse c e b (delivered w d (mk_request c ''in'' ''post'' (upload_args options)) (Body b)) of
        (Inl err, w1) \<Rightarrow> (Inl err, w1)
      | (Inr _, w1) \<Rightarrow>
          (case validateResponse c e b w1 of
             (Inl err, w2) \<Rightarrow> (Inl err, w2)
           | (Inr _, w2) \<Rightarrow> (Inr (new_Captcha\<lparr>captcha_id := second_field b\<rparr>), w2)))"
  by (simp add: upload_def await_def request_Body resolve_def split: prod.splits sum.splits)

lemma captcha_Body:
  "transport e w (mk_request c ''res'' ''get'' [(''id'', of_opt captchaId), (''action'', Str ''get'')])
     = (d, Body b) \<Longrightarrow>
   captcha c e captchaId w =
     (case validateResponse c e b
             (delivered w d (mk_request c ''res'' ''get''
                [(''id'', of_opt captchaId), (''action'', Str ''get'')]) (Body b)) of
        (Inl err, w1) \<Rightarrow> (Inl err, w1)
      | (Inr _, w1) \<Rightarrow>
          (Inr \<lparr>captcha_id = captchaId, apiResponse = Some b, captcha_text = second_field b\<rparr>, w1))"
  by (simp add: captcha_def await_def request_Body resolve_def split: prod.splits sum.splits)

lemma sample_valid_OK: "response_message (sample_env bs dflt) ''OK'' = None"
  by (simp add: response_message_def sample_env_def sample_errors_def)

text \<open>
  Claim C10. When the response body is valid and has no \<^verbatim>\<open>|\<close> in it, the submission
  \<^verbatim>\<open>_upload\<close> returns a Captcha whose id is \<^verbatim>\<open>undefined\<close> and the poll \<^verbatim>\<open>captcha\<close>
  returns a Captcha whose text is \<^verbatim>\<open>undefined\<close>; neither raises: taking the second
  field is total, and absent when the delimiter is missing.
\<close>

theorem no_delimiter_field_absent:
  assumes "CHR ''|'' \<notin> set body" and "response_message e body = None"
  shows "(transport e w (mk_request c ''in'' ''post'' (upload_args options)) = (d, Body body) \<longrightarrow>
            upload c e options w =
              (Inr \<lparr>captcha_id = None, apiResponse = None, captcha_text = None\<rparr>,
               delivered w d (mk_request c ''in'' ''post'' (upload_args options)) (Body body)))
       \<and> (transport e w (mk_request c ''res'' ''get''
              [(''id'', of_opt captchaId), (''action'', Str ''get'')]) = (d, Body body) \<longrightarrow>
            captcha c e captchaId w =
              (Inr \<lparr>captcha_id = captchaId, apiResponse = Some body, captcha_text = None\<rparr>,
               delivered w d (mk_request c ''res'' ''get''
                 [(''id'', of_opt captchaId), (''action'', Str ''get'')]) (Body body)))"
  using assms
  by (simp add: upload_Body captcha_Body validateResponse_valid second_field_None new_Captcha_def)

text \<open>The body \<^verbatim>\<open>OK\<close>, once as the answer to a submission and once to a poll.\<close>

theorem no_delimiter_field_absent_witness:
  "fst (upload (sample_client True) (sample_env [''OK''] ''OK'') [(''base64'', Str ''TWFu'')] start)
     = Inr \<lparr>captcha_id = None, apiResponse = None, captcha_text = None\<rparr>
   \<and> fst (captcha (sample_client True) (sample_env [''OK''] ''OK'') (Some ''77'') start)
     = Inr \<lparr>captcha_id = Some ''77'', apiResponse = Some ''OK'', captcha_text = None\<rparr>"
proof -
  have a: "CHR ''|'' \<notin> set ''OK''" by simp
  have t1: "transport (sample_env [''OK''] ''OK'') start
              (mk_request (sample_client True) ''in'' ''post'' (upload_args [(''base64'', Str ''TWFu'')]))
            = (2, Body ''OK'')"
    by (simp add: sample_env_def scripted_def start_def)
  have t2: "transport (sample_env [''OK''] ''OK'') start
              (mk_request (sample_client True) ''res'' ''get''
                 [(''id'', of_opt (Some ''77'')), (''action'', Str ''get'')])
            = (2, Body ''OK'')"
    by (simp add: sample_env_def scripted_def start_def)
  show ?thesis
    using no_delimiter_field_absent[OF a sample_valid_OK, of "[''OK'']" "''OK''" start "sample_client True"
            "[(''base64'', Str ''TWFu'')]" 2 "Some ''77''"] t1 t2
    by simp
qed

section \<open>The "not solved yet" response\<close>

lemma response_message_pending:
  "errors e body = Some ''Your captcha is not solved yet.'' \<Longrightarrow>
   response_message e body = Some ''Your captcha is not solved yet.''"
  by (simp add: response_message_def)

lemma sleep_eq: "sleep ms w = (Inr (), w\<lparr>clock := clock w + timer_delay ms, naps := naps w @ [ms]\<rparr>)"
  by (simp add: sleep_def)

text \<open>
  Claim C2. Whatever \<^verbatim>\<open>throwErrors\<close> is, a poll whose response is the "not solved yet"
  code (the body whose table entry is the message \<^verbatim>\<open>Your captcha is not solved yet.\<close>)
  does not raise and does not warn: it returns a Captcha, and the world changes by the
  recorded exchange only. With no \<^verbatim>\<open>|\<close> in that code the Captcha has no text, so an
  iteration of the polling loop that receives it (before the timeout) goes on with the
  next iteration: the condition is the pending state of the loop.
\<close>

theorem poll_not_solved_is_pending:
  assumes "errors e body = Some ''Your captcha is not solved yet.''"
  shows "(transport e w (poll_request c captchaId) = (d, Body body) \<longrightarrow>
            captcha c e captchaId w =
              (Inr \<lparr>captcha_id = captchaId, apiResponse = Some body,
                     captcha_text = second_field body\<rparr>,
               delivered w d (poll_request c captchaId) (Body body)))
       \<and> (CHR ''|'' \<notin> set body \<and> \<not> truthy (of_opt (captcha_text cap))
            \<and> \<not> timeout c < clock w + timer_delay ms - startedAt
            \<and> transport e (w\<lparr>clock := clock w + timer_delay ms, naps := naps w @ [ms]\<rparr>)
                  (poll_request c (captcha_id cap)) = (d, Body body) \<longrightarrow>
            poll_loop c e startedAt ms cap w =
              poll_loop c e startedAt ms
                \<lparr>captcha_id = captcha_id cap, apiResponse = Some body, captcha_text = None\<rparr>
                (delivered (w\<lparr>clock := clock w + timer_delay ms, naps := naps w @ [ms]\<rparr>) d
                   (poll_request c (captcha_id cap)) (Body body)))"
proof -
  have v: "\<And>w'. validateResponse c e body w' = (Inr False, w')"
    using assms by (simp add: validateResponse_message response_message_pending throwError_pending)
  have 1: "transport e w (poll_request c captchaId) = (d, Body body) \<Longrightarrow>
            captcha c e captchaId w =
              (Inr \<lparr>captcha_id = captchaId, apiResponse = Some body,
                     captcha_text = second_field body\<rparr>,
               delivered w d (poll_request c captchaId) (Body body))" for w captchaId
    unfolding poll_request_def by (simp add: captcha_Body v)
  have 2: "poll_loop c e startedAt ms cap w =
              poll_loop c e startedAt ms
                \<lparr>captcha_id = captcha_id cap, apiResponse = Some body, captcha_text = None\<rparr>
                (delivered (w\<lparr>clock := clock w + timer_delay ms, naps := naps w @ [ms]\<rparr>) d
                   (poll_request c (captcha_id cap)) (Body body))"
    if "CHR ''|'' \<notin> set body" "\<not> truthy (of_opt (captcha_text cap))"
       "\<not> timeout c < clock w + timer_delay ms - startedAt"
       "transport e (w\<lparr>clock := clock w + timer_delay ms, naps := naps w @ [ms]\<rparr>)
                  (poll_request c (captcha_id cap)) = (d, Body body)"
    using that 1[OF that(4)]
    by (subst poll_loop.simps) (simp add: sleep_eq second_field_None)
  show ?thesis using 1 2 by blast
qed

text \<open>
  With \<^verbatim>\<open>throwErrors\<close> set: a poll answered \<^verbatim>\<open>CAPCHA_NOT_READY\<close> returns, and a loop whose
  first poll is answered so goes on to the second poll and returns its solution.
\<close>

theorem poll_not_solved_is_pending_witness:
  "fst (captcha (sample_client True) (sample_env [] ''CAPCHA_NOT_READY'') (Some ''77'') start)
     = Inr \<lparr>captcha_id = Some ''77'', apiResponse = Some ''CAPCHA_NOT_READY'', captcha_text = None\<rparr>
   \<and> fst (poll_loop (sample_client True) (sample_env [''CAPCHA_NOT_READY''] ''OK|ABCD1234'') 1000 20
            \<lparr>captcha_id = Some ''77'', apiResponse = None, captcha_text = None\<rparr> start)
     = Inr (Some \<lparr>captcha_id = Some ''77'', apiResponse = Some ''OK|ABCD1234'',
                   captcha_text = Some ''ABCD1234''\<rparr>)"
proof -
  have t: "errors (sample_env bs dflt) ''CAPCHA_NOT_READY'' = Some ''Your captcha is not solved yet.''"
    for bs dflt
    by (simp add: sample_env_def sample_errors_def)
  have a: "fst (captcha (sample_client True) (sample_env [] ''CAPCHA_NOT_READY'') (Some ''77'') start)
     = Inr \<lparr>captcha_id = Some ''77'', apiResponse = Some ''CAPCHA_NOT_READY'', captcha_text = None\<rparr>"
    using poll_not_solved_is_pending[OF t, where d=2 and w=start and c="sample_client True" and captchaId="Some ''77''"]
    by (simp add: sample_env_def scripted_def start_def second_field_None)
  have b: "fst (poll_loop (sample_client True) (sample_env [''CAPCHA_NOT_READY''] ''OK|ABCD1234'') 1000 20
            \<lparr>captcha_id = Some ''77'', apiResponse = None, captcha_text = None\<rparr> start)
     = Inr (Some \<lparr>captcha_id = Some ''77'', apiResponse = Some ''OK|ABCD1234'',
                   captcha_text = Some ''ABCD1234''\<rparr>)"
    apply (subst conjunct2[OF poll_not_solved_is_pending[OF t, where d=2], rule_format])
     apply (simp add: sample_env_def scripted_def start_def sample_client_def timer_delay_def)
    apply (subst poll_loop.simps)
    apply (simp add: sleep_eq sample_client_def start_def timer_delay_def delivered_def)
    apply (subst captcha_Body[where d=2 and b="''OK|ABCD1234''"])
     apply (simp add: sample_env_def scripted_def)
    apply (simp add: validateResponse_def response_message_def sample_env_def sample_errors_def
        delivered_def)
    apply (subst poll_loop.simps)
    apply (simp add: second_field_def js_split_def at_index_def)
    done
  show ?thesis using a b by simp
qed

section \<open>Reports\<close>

lemma report_Body:
  "transport e w (report_request c captchaId bad) = (d, Body b) \<Longrightarrow>
   report c e captchaId bad w =
     (case validateResponse c e b (delivered w d (report_request c captchaId bad) (Body b)) of
        (Inl err, w1) \<Rightarrow> (Inl err, w1)
      | (Inr _, w1) \<Rightarrow> (Inr (b = ''OK_REPORT_RECORDED''), w1))"
  unfolding report_request_def
  by (simp add: report_def await_def request_Body resolve_def split: prod.splits sum.splits)

lemma fst_validateResponse:
  "fst (validateResponse c e body w) =
     (case response_message e body of
        None \<Rightarrow> Inr True
      | Some m \<Rightarrow>
          if throwErrors c \<and> m \<noteq> ''Your captcha is not solved yet.'' then Inl (Error m)
          else Inr False)"
  by (simp add: validateResponse_def throwError_def split: option.splits)

text \<open>
  Claim C8, as the code has it. When the transport answers a report with a body, the
  report returns \<^verbatim>\<open>true\<close> if the body is exactly \<^verbatim>\<open>OK_REPORT_RECORDED\<close> and
  \<^verbatim>\<open>false\<close> for any other body, with one exception: the body goes through the shared
  validation first, and when \<^verbatim>\<open>throwErrors\<close> is set a body classified as a remote error
  (other than "not solved yet") makes the report raise that error instead of returning.
\<close>

theorem report_outcome:
  assumes "transport e w (report_request c captchaId bad) = (d, Body body)"
  shows "fst (report c e captchaId bad w) =
     (case response_message e body of
        None \<Rightarrow> Inr (body = ''OK_REPORT_RECORDED'')
      | Some m \<Rightarrow>
          if throwErrors c \<and> m \<noteq> ''Your captcha is not solved yet.'' then Inl (Error m)
          else Inr (body = ''OK_REPORT_RECORDED''))"
  using fst_validateResponse[of c e body "delivered w d (report_request c captchaId bad) (Body body)"]
  by (auto simp: report_Body[OF assms] split: prod.splits sum.splits option.splits if_splits)

text \<open>Without throwing: the marker is reported as true, a remote error code as false.\<close>

theorem report_outcome_witness:
  "fst (report (sample_client False) (sample_env [''OK_REPORT_RECORDED''] []) (Some ''77'') True start)
     = Inr True
   \<and> fst (report (sample_client False) (sample_env [''ERROR_ZERO_BALANCE''] []) (Some ''77'') True start)
     = Inr False"
proof -
  have a: "transport (sample_env [b] []) start (report_request (sample_client False) (Some ''77'') True)
     = (2, Body b)" for b
    by (simp add: sample_env_def scripted_def start_def)
  show ?thesis
    using report_outcome[OF a, of "''OK_REPORT_RECORDED''"] report_outcome[OF a, of "''ERROR_ZERO_BALANCE''"]
    by (simp add: response_message_def sample_env_def sample_errors_def sample_client_def)
qed

text \<open>
  Claim C8 as stated lets every body other than the marker yield \<^verbatim>\<open>false\<close>. With
  \<^verbatim>\<open>throwErrors\<close> set, the body \<^verbatim>\<open>ERROR_ZERO_BALANCE\<close> yields no value: the report raises.
\<close>

theorem report_error_body_counterexample:
  "fst (report (sample_client True) (sample_env [''ERROR_ZERO_BALANCE''] []) (Some ''77'') True start)
     = Inl (Error ''Your account has zero balance.'')
   \<and> fst (report (sample_client True) (sample_env [''ERROR_ZERO_BALANCE''] []) (Some ''77'') True start)
     \<noteq> Inr False"
proof -
  have a: "transport (sample_env [''ERROR_ZERO_BALANCE''] []) start
             (report_request (sample_client True) (Some ''77'') True)
     = (2, Body ''ERROR_ZERO_BALANCE'')"
    by (simp add: sample_env_def scripted_def start_def)
  have r: "fst (report (sample_client True) (sample_env [''ERROR_ZERO_BALANCE''] []) (Some ''77'') True
               start) = Inl (Error ''Your account has zero balance.'')"
    by (subst report_Body[OF a])
       (simp add: validateResponse_def response_message_def sample_env_def
          sample_errors_def throwError_def sample_client_def)
  show ?thesis
    by (simp add: r)
qed

section \<open>A remote error during submission\<close>

lemma response_message_source:
  "response_message e body = Some m \<Longrightarrow>
   errors e body = Some m \<or> m = ''Unknown 2Captcha error: '' @ body"
  by (auto simp: response_message_def split: if_splits)

text \<open>
  Claim C3, as the code has it. Let the response to a submission be classified as a
  remote error with message \<open>m\<close> (the table's message of a known code, or the "unknown
  error" text that carries the body). When \<^verbatim>\<open>throwErrors\<close> is false, the validation
  warns with \<open>m\<close> and returns \<^verbatim>\<open>false\<close>, and nothing is raised: \<^verbatim>\<open>_upload\<close>, which
  validates the body once in \<^verbatim>\<open>_request\<close> and once itself, completes with two warnings
  and returns a Captcha that has the second field of the body as its id, which is
  \<^verbatim>\<open>undefined\<close> for a body without \<^verbatim>\<open>|\<close> such as a bare error code. When \<^verbatim>\<open>throwErrors\<close>
  is true, the validation and with it \<^verbatim>\<open>_upload\<close> raise an error whose message is \<open>m\<close>.
\<close>

theorem submit_remote_error:
  assumes "response_message e body = Some m"
      and "m \<noteq> ''Your captcha is not solved yet.''"
      and "transport e w (upload_request c options) = (d, Body body)"
  shows "(\<not> throwErrors c \<longrightarrow>
            validateResponse c e body w = (Inr False, w\<lparr>warned := warned w @ [m]\<rparr>)
          \<and> upload c e options w =
              (Inr (new_Captcha\<lparr>captcha_id := second_field body\<rparr>),
               (delivered w d (upload_request c options) (Body body))\<lparr>warned := warned w @ [m, m]\<rparr>)
          \<and> (CHR ''|'' \<notin> set body \<longrightarrow> second_field body = None))
       \<and> (throwErrors c \<longrightarrow>
            validateResponse c e body w = (Inl (Error m), w)
          \<and> upload c e options w =
              (Inl (Error m), delivered w d (upload_request c options) (Body body)))
       \<and> (errors e body = Some m \<or> m = ''Unknown 2Captcha error: '' @ body)"
proof -
  have t: "transport e w (mk_request c ''in'' ''post'' (upload_args options)) = (d, Body body)"
    using assms(3) by (simp add: upload_request_def)
  have v: "validateResponse c e body w' = throwError c m w'" for w'
    using assms(1) by (rule validateResponse_message)
  show ?thesis
    using assms(2) response_message_source[OF assms(1)]
    by (simp add: upload_Body[OF t] v throwError_def upload_request_def delivered_def
        second_field_None)
qed

text \<open>The code \<^verbatim>\<open>ERROR_ZERO_BALANCE\<close> as the answer to a submission, in both modes.\<close>

theorem submit_remote_error_witness:
  "fst (upload (sample_client False) (sample_env [''ERROR_ZERO_BALANCE''] []) [(''base64'', Str ''TWFu'')] start)
     = Inr \<lparr>captcha_id = None, apiResponse = None, captcha_text = None\<rparr>
   \<and> warned (snd (upload (sample_client False) (sample_env [''ERROR_ZERO_BALANCE''] [])
                     [(''base64'', Str ''TWFu'')] start))
     = [''Your account has zero balance.'', ''Your account has zero balance.'']
   \<and> fst (upload (sample_client True) (sample_env [''ERROR_ZERO_BALANCE''] []) [(''base64'', Str ''TWFu'')] start)
     = Inl (Error ''Your account has zero balance.'')"
proof -
  have m: "response_message (sample_env [''ERROR_ZERO_BALANCE''] []) ''ERROR_ZERO_BALANCE''
             = Some ''Your account has zero balance.''"
    by (simp add: response_message_def sample_env_def sample_errors_def)
  have n: "''Your account has zero balance.'' \<noteq> ''Your captcha is not solved yet.''"
    by simp
  have t: "transport (sample_env [''ERROR_ZERO_BALANCE''] []) start
             (upload_request (sample_client b) [(''base64'', Str ''TWFu'')])
             = (2, Body ''ERROR_ZERO_BALANCE'')" for b
    by (simp add: sample_env_def scripted_def start_def)
  have f: "\<not> throwErrors (sample_client False)" and g: "throwErrors (sample_client True)"
    by (simp_all add: sample_client_def)
  show ?thesis
    using submit_remote_error[OF m n t, of False] submit_remote_error[OF m n t, of True] f g
    by (simp add: second_field_None new_Captcha_def start_def)
qed

text \<open>
  Claim C3 as stated lets the submission return a falsy outcome when \<^verbatim>\<open>throwErrors\<close> is
  false. The falsy value is the validator's, and \<^verbatim>\<open>_request\<close> and \<^verbatim>\<open>_upload\<close> drop it:
  the submission returns a Captcha, an object. For the body \<^verbatim>\<open>ERROR|55\<close>, an unknown
  remote error, even the id of that Captcha is a non-empty string, \<^verbatim>\<open>55\<close>.
\<close>

theorem submit_remote_error_counterexample:
  "response_message (sample_env [''ERROR|55''] []) ''ERROR|55''
     = Some ''Unknown 2Captcha error: ERROR|55''
   \<and> fst (upload (sample_client False) (sample_env [''ERROR|55''] []) [(''base64'', Str ''TWFu'')] start)
     = Inr \<lparr>captcha_id = Some ''55'', apiResponse = None, captcha_text = None\<rparr>
   \<and> truthy (of_opt (Some ''55''))
   \<and> warned (snd (upload (sample_client False) (sample_env [''ERROR|55''] [])
                     [(''base64'', Str ''TWFu'')] start))
     = [''Unknown 2Captcha error: ERROR|55'', ''Unknown 2Captcha error: ERROR|55'']"
  by (simp add: upload_def upload_args_def request_def call_transport_def delivered_def
      mk_request_def validateResponse_def response_message_def throwError_def await_def
      resolve_def new_Captcha_def second_field_def js_split_def at_index_def
      sample_env_def sample_errors_def scripted_def sample_client_def start_def)

section \<open>What each method does to the world\<close>

lemma await_Inr:
  assumes "await m f w = (Inr y, w')"
  obtains x w1 where "m w = (Inr x, w1)" and "f x w1 = (Inr y, w')"
  using assms by (auto simp: await_def split: prod.splits sum.splits)

lemma throwError_frame:
  assumes "throwError c m w = (r, w')"
  shows "clock w' = clock w" and "traffic w' = traffic w" and "naps w' = naps w"
  using assms by (auto simp: throwError_def split: if_splits)

lemma validateResponse_frame:
  assumes "validateResponse c e body w = (r, w')"
  shows "clock w' = clock w" and "traffic w' = traffic w" and "naps w' = naps w"
  using assms throwError_frame[of c _ w r w']
  by (auto simp: validateResponse_def split: option.splits)


lemma call_transport_frame:
  assumes "call_transport e req w = (r, w')"
  shows "clock w \<le> clock w'" and "\<exists>rep. traffic w' = traffic w @ [(req, rep)]"
    and "naps w' = naps w" and "warned w' = warned w"
  using assms
  by (auto simp: call_transport_def delivered_def Let_def split: prod.splits reply.splits)

lemma call_transport_Inr:
  assumes "call_transport e req w = (Inr b, w')"
  shows "traffic w' = traffic w @ [(req, Body b)]"
  using assms
  by (auto simp: call_transport_def delivered_def Let_def split: prod.splits reply.splits)

lemma request_frame:
  assumes "request c e action meth pl w = (r, w')"
  shows "clock w \<le> clock w'"
    and "\<exists>rep. traffic w' = traffic w @ [(mk_request c action meth pl, rep)]"
    and "naps w' = naps w"
proof -
  obtain r1 w1 where 1: "call_transport e (mk_request c action meth pl) w = (r1, w1)"
    by (cases "call_transport e (mk_request c action meth pl) w")
  note f = call_transport_frame[OF 1]
  have "clock w \<le> clock w' \<and> (\<exists>rep. traffic w' = traffic w @ [(mk_request c action meth pl, rep)])
        \<and> naps w' = naps w"
  proof (cases r1)
    case (Inl err)
    then show ?thesis using assms 1 f by (simp add: request_def await_def)
  next
    case (Inr b)
    obtain r2 w2 where 2: "validateResponse c e b w1 = (r2, w2)"
      by (cases "validateResponse c e b w1")
    note g = validateResponse_frame[OF 2]
    show ?thesis using assms 1 2 Inr f g
      by (cases r2) (auto simp: request_def await_def resolve_def)
  qed
  then show "clock w \<le> clock w'"
    and "\<exists>rep. traffic w' = traffic w @ [(mk_request c action meth pl, rep)]"
    and "naps w' = naps w" by blast+
qed

lemma request_Inr:
  assumes "request c e action meth pl w = (Inr b, w')"
  shows "traffic w' = traffic w @ [(mk_request c action meth pl, Body b)]"
proof -
  from assms obtain x w1 where 1: "call_transport e (mk_request c action meth pl) w = (Inr x, w1)"
    and 2: "await (validateResponse c e x) (\<lambda>_. resolve x) w1 = (Inr b, w')"
    unfolding request_def by (rule await_Inr)
  from 2 obtain y w2 where 3: "validateResponse c e x w1 = (Inr y, w2)" and 4: "resolve x w2 = (Inr b, w')"
    by (rule await_Inr)
  show ?thesis
    using call_transport_Inr[OF 1] validateResponse_frame(2)[OF 3] 4 by (simp add: resolve_def)
qed

lemma captcha_frame:
  assumes "captcha c e captchaId w = (r, w')"
  shows "clock w \<le> clock w'"
    and "\<exists>rep. traffic w' = traffic w @ [(poll_request c captchaId, rep)]"
    and "naps w' = naps w"
proof -
  obtain r1 w1 where 1: "request c e ''res'' ''get'' [(''id'', of_opt captchaId), (''action'', Str ''get'')] w = (r1, w1)"
    by (cases "request c e ''res'' ''get'' [(''id'', of_opt captchaId), (''action'', Str ''get'')] w")
  have "w' = w1"
    using assms 1 by (cases r1) (auto simp: captcha_def await_def resolve_def)
  then show "clock w \<le> clock w'"
    and "\<exists>rep. traffic w' = traffic w @ [(poll_request c captchaId, rep)]"
    and "naps w' = naps w"
    using request_frame[OF 1] by (simp_all add: poll_request_def)
qed

lemma captcha_Inr:
  assumes "captcha c e captchaId w = (Inr nxt, w')"
  shows "\<exists>body. traffic w' = traffic w @ [(poll_request c captchaId, Body body)]
           \<and> nxt = \<lparr>captcha_id = captchaId, apiResponse = Some body, captcha_text = second_field body\<rparr>"
proof -
  from assms obtain b w1 where
    1: "request c e ''res'' ''get'' [(''id'', of_opt captchaId), (''action'', Str ''get'')] w = (Inr b, w1)"
    and 2: "resolve \<lparr>captcha_id = captchaId, apiResponse = Some b, captcha_text = second_field b\<rparr> w1
              = (Inr nxt, w')"
    unfolding captcha_def by (rule await_Inr)
  show ?thesis
    using request_Inr[OF 1] 2 by (auto simp: resolve_def poll_request_def)
qed

lemma upload_frame:
  assumes "upload c e options w = (r, w')"
  shows "clock w \<le> clock w'"
    and "\<exists>rep. traffic w' = traffic w @ [(upload_request c options, rep)]"
    and "naps w' = naps w"
proof -
  obtain r1 w1 where 1: "request c e ''in'' ''post'' (upload_args options) w = (r1, w1)"
    by (cases "request c e ''in'' ''post'' (upload_args options) w")
  note f = request_frame[OF 1]
  have "clock w \<le> clock w' \<and> (\<exists>rep. traffic w' = traffic w @ [(upload_request c options, rep)])
        \<and> naps w' = naps w"
  proof (cases r1)
    case (Inl err)
    then show ?thesis using assms 1 f by (simp add: upload_def await_def upload_request_def)
  next
    case (Inr b)
    obtain r2 w2 where 2: "validateResponse c e b w1 = (r2, w2)"
      by (cases "validateResponse c e b w1")
    note g = validateResponse_frame[OF 2]
    show ?thesis using assms 1 2 Inr f g
      by (cases r2) (auto simp: upload_def await_def resolve_def upload_request_def)
  qed
  then show "clock w \<le> clock w'"
    and "\<exists>rep. traffic w' = traffic w @ [(upload_request c options, rep)]"
    and "naps w' = naps w" by blast+
qed

lemma upload_Inr:
  assumes "upload c e options w = (Inr cap, w')"
  shows "captcha_text cap = None"
proof -
  from assms obtain b w1 where
    "await (validateResponse c e b) (\<lambda>_. resolve (new_Captcha\<lparr>captcha_id := second_field b\<rparr>)) w1
       = (Inr cap, w')"
    unfolding upload_def by (rule await_Inr)
  then obtain y w2 where "resolve (new_Captcha\<lparr>captcha_id := second_field b\<rparr>) w2 = (Inr cap, w')"
    by (rule await_Inr)
  then show ?thesis by (auto simp: resolve_def new_Captcha_def)
qed

section \<open>The polling loop, one iteration at a time\<close>

lemma poll_loop_done:
  "truthy (of_opt (captcha_text cap)) \<Longrightarrow> poll_loop c e startedAt ms cap w = (Inr (Some cap), w)"
  by (subst poll_loop.simps) simp

lemma poll_loop_timeout:
  assumes "\<not> truthy (of_opt (captcha_text cap))"
    and "timeout c < clock w + timer_delay ms - startedAt"
  shows "poll_loop c e startedAt ms cap w =
     (if throwErrors c
      then (Inl (Error ''Captcha timeout''),
            w\<lparr>clock := clock w + timer_delay ms, naps := naps w @ [ms]\<rparr>)
      else (Inr None,
            w\<lparr>clock := clock w + timer_delay ms, naps := naps w @ [ms],
               warned := warned w @ [''Captcha timeout'']\<rparr>))"
  using assms by (subst poll_loop.simps) (simp add: sleep_eq throwError_def)

lemma poll_loop_step:
  assumes "\<not> truthy (of_opt (captcha_text cap))"
    and "\<not> timeout c < clock w + timer_delay ms - startedAt"
  shows "poll_loop c e startedAt ms cap w =
     (case captcha c e (captcha_id cap)
             (w\<lparr>clock := clock w + timer_delay ms, naps := naps w @ [ms]\<rparr>) of
        (Inl err, w2) \<Rightarrow> (Inl err, w2)
      | (Inr nxt, w2) \<Rightarrow> poll_loop c e startedAt ms nxt w2)"
  using assms by (subst poll_loop.simps) (simp add: sleep_eq)

lemma poll_loop_solution:
  assumes "poll_loop c e startedAt ms cap w = (Inr (Some solution), w')"
  shows "(solution = cap \<and> w' = w \<and> truthy (of_opt (captcha_text cap)))
       \<or> (\<exists>req body. traffic w' \<noteq> [] \<and> last (traffic w') = (req, Body body)
             \<and> apiResponse solution = Some body \<and> captcha_text solution = second_field body)"
  using assms
proof (induction c e startedAt ms cap w rule: poll_loop.induct)
  case (1 c e startedAt ms cap w)
  show ?case
  proof (cases "truthy (of_opt (captcha_text cap))")
    case True
    then show ?thesis using "1.prems" by (simp add: poll_loop_done)
  next
    case False
    note nt = this
    show ?thesis
    proof (cases "timeout c < clock w + timer_delay ms - startedAt")
      case True
      then show ?thesis using "1.prems" nt by (simp add: poll_loop_timeout split: if_splits)
    next
      case False
      let ?w1 = "w\<lparr>clock := clock w + timer_delay ms, naps := naps w @ [ms]\<rparr>"
      obtain r w2 where cp: "captcha c e (captcha_id cap) ?w1 = (r, w2)"
        by (cases "captcha c e (captcha_id cap) ?w1")
      show ?thesis
      proof (cases r)
        case (Inl err)
        then show ?thesis using "1.prems" nt False cp by (simp add: poll_loop_step)
      next
        case (Inr nxt)
        have run: "poll_loop c e startedAt ms nxt w2 = (Inr (Some solution), w')"
          using "1.prems" nt False cp Inr by (simp add: poll_loop_step)
        have sl: "sleep ms w = (Inr (), ?w1)" by (simp add: sleep_eq)
        have ih: "(solution = nxt \<and> w' = w2 \<and> truthy (of_opt (captcha_text nxt)))
           \<or> (\<exists>req body. traffic w' \<noteq> [] \<and> last (traffic w') = (req, Body body)
             \<and> apiResponse solution = Some body \<and> captcha_text solution = second_field body)"
          using "1.IH"[OF nt sl[symmetric] refl _ _ refl run] False cp Inr by simp
        from captcha_Inr[OF cp[unfolded Inr]] obtain body where
          b: "traffic w2 = traffic ?w1 @ [(poll_request c (captcha_id cap), Body body)]"
             "nxt = \<lparr>captcha_id = captcha_id cap, apiResponse = Some body,
                     captcha_text = second_field body\<rparr>"
          by blast
        show ?thesis using ih b by auto
      qed
    qed
  qed
qed

section \<open>The four operations end in the polling loop\<close>

lemma decode_via_loop:
  assumes "decode c e options w = (Inr r, w')"
  obtains opts w0 cap0 w1 where "upload c e opts w0 = (Inr cap0, w1)"
    and "poll_loop c e (clock w) (polling c) cap0 w1 = (Inr r, w')"
proof -
  from assms obtain u w0 where
    1: "await (loadCaptcha c e options)
          (\<lambda>base64. await (upload c e (assign ''base64'' base64 options))
          (\<lambda>decodedCaptcha. poll_loop c e (clock w) (polling c) decodedCaptcha)) w0 = (Inr r, w')"
    unfolding decode_def Let_def by (rule await_Inr)
  from 1 obtain b64 w1 where
    2: "await (upload c e (assign ''base64'' b64 options))
          (\<lambda>decodedCaptcha. poll_loop c e (clock w) (polling c) decodedCaptcha) w1 = (Inr r, w')"
    by (rule await_Inr)
  from 2 obtain cap0 w2 where "upload c e (assign ''base64'' b64 options) w1 = (Inr cap0, w2)"
    and "poll_loop c e (clock w) (polling c) cap0 w2 = (Inr r, w')"
    by (rule await_Inr)
  then show ?thesis by (rule that)
qed

lemma decodeRecaptchaV2_via_loop:
  assumes "decodeRecaptchaV2 c e options w = (Inr r, w')"
  obtains opts w0 cap0 w1 where "upload c e opts w0 = (Inr cap0, w1)"
    and "poll_loop c e (clock w) (max (polling c) 10) cap0 w1 = (Inr r, w')"
proof -
  from assms obtain u w0 where
    1: "await (check c (get_prop options ''pageurl'' = Str []) ''Missing pageurl parameter'')
           (\<lambda>_. let upload_options =
                    [(''method'', Str ''userrecaptcha''),
                     (''googlekey'', get_prop options ''googlekey''),
                     (''pageurl'', get_prop options ''pageurl''),
                     (''invisible'', flag (get_prop options ''invisible'')),
                     (''enterprise'', flag (get_prop options ''enterprise''))]
                 in await (upload c e upload_options)
           (\<lambda>decodedCaptcha. poll_loop c e (clock w) (max (polling c) 10) decodedCaptcha)) w0
         = (Inr r, w')"
    unfolding decodeRecaptchaV2_def Let_def by (rule await_Inr)
  from 1 obtain u' w1 opts where
    2: "await (upload c e opts)
          (\<lambda>decodedCaptcha. poll_loop c e (clock w) (max (polling c) 10) decodedCaptcha) w1 = (Inr r, w')"
    unfolding Let_def by (rule await_Inr)
  from 2 obtain cap0 w2 where "upload c e opts w1 = (Inr cap0, w2)"
    and "poll_loop c e (clock w) (max (polling c) 10) cap0 w2 = (Inr r, w')"
    by (rule await_Inr)
  then show ?thesis by (rule that)
qed

lemma decodeRecaptchaV3_via_loop:
  assumes "decodeRecaptchaV3 c e options w = (Inr r, w')"
  obtains opts w0 cap0 w1 where "upload c e opts w0 = (Inr cap0, w1)"
    and "poll_loop c e (clock w) (max (polling c) 10) cap0 w1 = (Inr r, w')"
proof -
  from assms obtain u w0 where
    1: "await (check c (get_prop options ''pageurl'' = Str []) ''Missing pageurl parameter'')
           (\<lambda>_. let upload_options =
                    [(''method'', Str ''userrecaptcha''),
                     (''googlekey'', get_prop options ''googlekey''),
                     (''pageurl'', get_prop options ''pageurl''),
                     (''version'', Str ''v3''),
                     (''action'', if truthy (get_prop options ''action'')
                                  then get_prop options ''action'' else Str []),
                     (''enterprise'', flag (get_prop options ''enterprise''))]
                 in await (upload c e upload_options)
           (\<lambda>decodedCaptcha. poll_loop c e (clock w) (max (polling c) 10) decodedCaptcha)) w0
         = (Inr r, w')"
    unfolding decodeRecaptchaV3_def Let_def by (rule await_Inr)
  from 1 obtain u' w1 opts where
    2: "await (upload c e opts)
          (\<lambda>decodedCaptcha. poll_loop c e (clock w) (max (polling c) 10) decodedCaptcha) w1 = (Inr r, w')"
    unfolding Let_def by (rule await_Inr)
  from 2 obtain cap0 w2 where "upload c e opts w1 = (Inr cap0, w2)"
    and "poll_loop c e (clock w) (max (polling c) 10) cap0 w2 = (Inr r, w')"
    by (rule await_Inr)
  then show ?thesis by (rule that)
qed

lemma decodeHCaptcha_via_loop:
  assumes "decodeHCaptcha c e options w = (Inr r, w')"
  obtains opts w0 cap0 w1 where "upload c e opts w0 = (Inr cap0, w1)"
    and "poll_loop c e (clock w) (max (polling c) 10) cap0 w1 = (Inr r, w')"
proof -
  from assms obtain u w0 where
    1: "await (check c (get_prop options ''pageurl'' = Str []) ''Missing pageurl parameter'')
           (\<lambda>_. let upload_options =
                    [(''method'', Str ''hcaptcha''),
                     (''sitekey'', get_prop options ''sitekey''),
                     (''pageurl'', get_prop options ''pageurl''),
                     (''invisible'', flag (get_prop options ''invisible''))]
                 in await (upload c e upload_options)
           (\<lambda>decodedCaptcha. poll_loop c e (clock w) (max (polling c) 10) decodedCaptcha)) w0
         = (Inr r, w')"
    unfolding decodeHCaptcha_def Let_def by (rule await_Inr)
  from 1 obtain u' w1 opts where
    2: "await (upload c e opts)
          (\<lambda>decodedCaptcha. poll_loop c e (clock w) (max (polling c) 10) decodedCaptcha) w1 = (Inr r, w')"
    unfolding Let_def by (rule await_Inr)
  from 2 obtain cap0 w2 where "upload c e opts w1 = (Inr cap0, w2)"
    and "poll_loop c e (clock w) (max (polling c) 10) cap0 w2 = (Inr r, w')"
    by (rule await_Inr)
  then show ?thesis by (rule that)
qed

lemma operation_via_loop:
  assumes "operation = decode \<or> operation = decodeRecaptchaV2
           \<or> operation = decodeRecaptchaV3 \<or> operation = decodeHCaptcha"
      and "operation c e options w = (Inr r, w')"
  obtains opts w0 cap0 w1 ms where "upload c e opts w0 = (Inr cap0, w1)"
    and "poll_loop c e (clock w) ms cap0 w1 = (Inr r, w')"
  using assms
  by (metis decode_via_loop decodeRecaptchaV2_via_loop decodeRecaptchaV3_via_loop
      decodeHCaptcha_via_loop)

text \<open>Evaluating a run on concrete collaborators.\<close>

lemmas run_defs =
  decode_def decodeRecaptchaV2_def decodeRecaptchaV3_def decodeHCaptcha_def check_def
  loadCaptcha_def load_bytes_def upload_def upload_args_def captcha_def request_def
  call_transport_def delivered_def mk_request_def validateResponse_def response_message_def
  throwError_def await_def resolve_def raise_def flag_def timer_delay_def new_Captcha_def
  second_field_def js_split_def at_index_def
  poll_loop_done poll_loop_timeout poll_loop_step

lemmas sample_defs =
  sample_env_def sample_pending_env_def sample_errors_def scripted_def sample_loader_def sample_bytes_def
  sample_client_def start_def

section \<open>The text of a solution\<close>

text \<open>
  Claim C4. A solution returned by any of the four operations comes from the last poll:
  the last recorded exchange carries a response body, that body is the solution's raw
  response, and the solution's text is \<^verbatim>\<open>body.split('|', 2)[1]\<close>, the second field of
  the body. The same holds for the Captcha a single poll returns. The body
  \<^verbatim>\<open>OK|ABCD1234\<close> gives the text \<^verbatim>\<open>ABCD1234\<close>. (Lemma \<open>second_field_Some\<close> says what the
  second field is: the characters after the first \<^verbatim>\<open>|\<close> up to the next one.)
\<close>

theorem solution_text_second_field:
  assumes "operation = decode \<or> operation = decodeRecaptchaV2
           \<or> operation = decodeRecaptchaV3 \<or> operation = decodeHCaptcha"
  shows "(operation c e options w = (Inr (Some solution), w') \<longrightarrow>
            (\<exists>req body. traffic w' \<noteq> [] \<and> last (traffic w') = (req, Body body)
               \<and> apiResponse solution = Some body
               \<and> captcha_text solution = second_field body))
       \<and> (captcha c e captchaId w = (Inr polled, w1) \<longrightarrow>
            (\<exists>body. last (traffic w1) = (poll_request c captchaId, Body body)
               \<and> apiResponse polled = Some body
               \<and> captcha_text polled = second_field body))
       \<and> second_field ''OK|ABCD1234'' = Some ''ABCD1234''"
proof (intro conjI impI)
  assume run: "operation c e options w = (Inr (Some solution), w')"
  from assms run obtain opts w0 cap0 w2 ms where
    u: "upload c e opts w0 = (Inr cap0, w2)"
    and l: "poll_loop c e (clock w) ms cap0 w2 = (Inr (Some solution), w')"
    by (rule operation_via_loop)
  have "\<not> truthy (of_opt (captcha_text cap0))"
    using upload_Inr[OF u] by simp
  then show "\<exists>req body. traffic w' \<noteq> [] \<and> last (traffic w') = (req, Body body)
               \<and> apiResponse solution = Some body
               \<and> captcha_text solution = second_field body"
    using poll_loop_solution[OF l] by auto
next
  assume "captcha c e captchaId w = (Inr polled, w1)"
  from captcha_Inr[OF this]
  show "\<exists>body. last (traffic w1) = (poll_request c captchaId, Body body)
               \<and> apiResponse polled = Some body
               \<and> captcha_text polled = second_field body"
    by auto
next
  show "second_field ''OK|ABCD1234'' = Some ''ABCD1234''"
    by (simp add: second_field_def js_split_def at_index_def)
qed

text \<open>
  An image submitted as base64, answered \<^verbatim>\<open>OK|77\<close>; the first poll is not ready, the
  second is answered \<^verbatim>\<open>OK|ABCD1234\<close>.
\<close>

theorem solution_text_second_field_witness:
  "decode (sample_client True) (sample_env [''OK|77'', ''CAPCHA_NOT_READY''] ''OK|ABCD1234'')
     [(''base64'', Str ''TWFu'')] start
   = (Inr (Some \<lparr>captcha_id = Some ''77'', apiResponse = Some ''OK|ABCD1234'',
                   captcha_text = Some ''ABCD1234''\<rparr>),
      \<lparr>clock = 1046,
       traffic =
         [(upload_request (sample_client True) [(''base64'', Str ''TWFu'')], Body ''OK|77''),
          (poll_request (sample_client True) (Some ''77''), Body ''CAPCHA_NOT_READY''),
          (poll_request (sample_client True) (Some ''77''), Body ''OK|ABCD1234'')],
       naps = [20, 20], warned = []\<rparr>)
   \<and> (\<exists>req body.
         last [(upload_request (sample_client True) [(''base64'', Str ''TWFu'')], Body ''OK|77''),
               (poll_request (sample_client True) (Some ''77''), Body ''CAPCHA_NOT_READY''),
               (poll_request (sample_client True) (Some ''77''), Body ''OK|ABCD1234'')]
           = (req, Body body)
         \<and> Some ''ABCD1234'' = second_field body)"
proof -
  have run: "decode (sample_client True) (sample_env [''OK|77'', ''CAPCHA_NOT_READY''] ''OK|ABCD1234'')
     [(''base64'', Str ''TWFu'')] start
   = (Inr (Some \<lparr>captcha_id = Some ''77'', apiResponse = Some ''OK|ABCD1234'',
                   captcha_text = Some ''ABCD1234''\<rparr>),
      \<lparr>clock = 1046,
       traffic =
         [(upload_request (sample_client True) [(''base64'', Str ''TWFu'')], Body ''OK|77''),
          (poll_request (sample_client True) (Some ''77''), Body ''CAPCHA_NOT_READY''),
          (poll_request (sample_client True) (Some ''77''), Body ''OK|ABCD1234'')],
       naps = [20, 20], warned = []\<rparr>)"
    by (simp add: run_defs sample_defs upload_request_def poll_request_def)
  show ?thesis
    using solution_text_second_field[where operation = decode, simplified, THEN conjunct1, rule_format, OF run]
    by (simp add: run)
qed

section \<open>Loading an image\<close>

lemma toString_base64_frame:
  assumes "toString_base64 v w = (r, w')"
  shows "w' = w"
  using assms by (cases v) (auto simp: resolve_def raise_def)

lemma load_bytes_frame:
  assumes "load_bytes loader src w = (r, w')"
  shows "clock w \<le> clock w'" and "traffic w' = traffic w" and "naps w' = naps w"
  using assms by (auto simp: load_bytes_def Let_def split: prod.splits option.splits)

lemma loadCaptcha_frame:
  assumes "loadCaptcha c e options w = (r, w')"
  shows "clock w \<le> clock w'" and "traffic w' = traffic w" and "naps w' = naps w"
proof -
  have "clock w \<le> clock w' \<and> traffic w' = traffic w \<and> naps w' = naps w"
  proof -
    consider (a) "truthy (get_prop options ''base64'')"
      | (b) "\<not> truthy (get_prop options ''base64'')" "truthy (get_prop options ''buffer'')"
      | (c) "\<not> truthy (get_prop options ''base64'')" "\<not> truthy (get_prop options ''buffer'')"
            "truthy (get_prop options ''path'')"
      | (d) "\<not> truthy (get_prop options ''base64'')" "\<not> truthy (get_prop options ''buffer'')"
            "\<not> truthy (get_prop options ''path'')" "truthy (get_prop options ''url'')"
      | (f) "\<not> truthy (get_prop options ''base64'')" "\<not> truthy (get_prop options ''buffer'')"
            "\<not> truthy (get_prop options ''path'')" "\<not> truthy (get_prop options ''url'')"
      by blast
    then show ?thesis
    proof cases
      case a
      then show ?thesis using assms by (simp add: loadCaptcha_def resolve_def)
    next
      case b
      then show ?thesis using assms toString_base64_frame[of "get_prop options ''buffer''" w r w']
        by (simp add: loadCaptcha_def)
    next
      case c
      obtain r1 w1 where 1: "load_bytes (readFile e) (get_prop options ''path'') w = (r1, w1)"
        by (cases "load_bytes (readFile e) (get_prop options ''path'') w")
      show ?thesis using c assms 1 load_bytes_frame[OF 1]
        by (cases r1) (auto simp: loadCaptcha_def await_def resolve_def)
    next
      case d
      obtain r1 w1 where 1: "load_bytes (openDataURL e) (get_prop options ''url'') w = (r1, w1)"
        by (cases "load_bytes (openDataURL e) (get_prop options ''url'') w")
      show ?thesis using d assms 1 load_bytes_frame[OF 1]
        by (cases r1) (auto simp: loadCaptcha_def await_def resolve_def)
    next
      case f
      obtain r1 w1 where 1: "throwError c ''No image data received'' w = (r1, w1)"
        by (cases "throwError c ''No image data received'' w")
      show ?thesis using f assms 1 throwError_frame[OF 1]
        by (cases r1) (auto simp: loadCaptcha_def await_def resolve_def)
    qed
  qed
  then show "clock w \<le> clock w'" and "traffic w' = traffic w" and "naps w' = naps w"
    by blast+
qed

section \<open>Polls that are always pending\<close>

lemma polls_left_step:
  fixes rem rem' delay :: int
  assumes "0 < delay" and "delay \<le> rem" and "rem' \<le> rem - delay"
  shows "Suc (nat (rem' div delay)) \<le> nat (rem div delay)"
proof -
  have "rem' div delay \<le> (rem - delay) div delay"
    using assms by (simp add: zdiv_mono1)
  also have "(rem - delay) div delay = rem div delay - 1"
    using assms(1) div_add_self2[of delay "rem - delay"] by simp
  finally have a: "rem' div delay \<le> rem div delay - 1" .
  have "1 \<le> rem div delay"
    using assms(1,2) zdiv_mono1[of delay rem delay] by simp
  with a show ?thesis by linarith
qed

lemma timer_delay_pos: "0 < timer_delay ms"
  by (simp add: timer_delay_def)

lemma poll_loop_always_pending:
  assumes pending: "\<And>captchaId w. \<exists>cap w'. captcha c e captchaId w = (Inr cap, w')
                      \<and> \<not> truthy (of_opt (captcha_text cap))"
    and "\<not> truthy (of_opt (captcha_text cap))"
    and "poll_loop c e startedAt ms cap w = (r, w')"
  shows "r = (if throwErrors c then Inl (Error ''Captcha timeout'') else Inr None)
       \<and> (\<not> throwErrors c \<longrightarrow> warned w' \<noteq> [] \<and> last (warned w') = ''Captcha timeout'')
       \<and> length (traffic w') \<le> length (traffic w)
             + nat ((timeout c - (clock w - startedAt)) div timer_delay ms)
       \<and> length (naps w') + length (traffic w) = Suc (length (naps w) + length (traffic w'))
       \<and> timeout c < clock w' - startedAt"
  using assms
proof (induction c e startedAt ms cap w rule: poll_loop.induct)
  case (1 c e startedAt ms cap w)
  note pending = "1.prems"(1)
  note nt = "1.prems"(2)
  show ?case
  proof (cases "timeout c < clock w + timer_delay ms - startedAt")
    case True
    then show ?thesis using "1.prems" by (auto simp: poll_loop_timeout split: if_splits)
  next
    case False
    let ?w1 = "w\<lparr>clock := clock w + timer_delay ms, naps := naps w @ [ms]\<rparr>"
    from pending[of "captcha_id cap" ?w1] obtain nxt w2 where
      cp: "captcha c e (captcha_id cap) ?w1 = (Inr nxt, w2)"
      and nn: "\<not> truthy (of_opt (captcha_text nxt))"
      by blast
    have run: "poll_loop c e startedAt ms nxt w2 = (r, w')"
      using "1.prems" False cp by (simp add: poll_loop_step)
    have sl: "sleep ms w = (Inr (), ?w1)" by (simp add: sleep_eq)
    note ih = "1.IH"[OF nt sl[symmetric] refl _ cp[symmetric] refl pending nn run]
    have ih': "r = (if throwErrors c then Inl (Error ''Captcha timeout'') else Inr None)
       \<and> (\<not> throwErrors c \<longrightarrow> warned w' \<noteq> [] \<and> last (warned w') = ''Captcha timeout'')
       \<and> length (traffic w') \<le> length (traffic w2)
             + nat ((timeout c - (clock w2 - startedAt)) div timer_delay ms)
       \<and> length (naps w') + length (traffic w2) = Suc (length (naps w2) + length (traffic w'))
       \<and> timeout c < clock w' - startedAt"
      using ih False by simp
    have f1: "clock ?w1 \<le> clock w2" and f3: "naps w2 = naps ?w1"
      using captcha_frame[OF cp] by simp_all
    from captcha_frame(2)[OF cp] have f2: "length (traffic w2) = Suc (length (traffic w))"
      by auto
    have "Suc (nat ((timeout c - (clock w2 - startedAt)) div timer_delay ms))
            \<le> nat ((timeout c - (clock w - startedAt)) div timer_delay ms)"
      using False f1 by (intro polls_left_step timer_delay_pos) simp_all
    then show ?thesis using ih' f2 f3 by simp
  qed
qed

section \<open>The shape of the four operations\<close>









lemma sample_pending:
  "\<exists>cap w'. captcha (sample_client b) sample_pending_env captchaId w = (Inr cap, w')
      \<and> \<not> truthy (of_opt (captcha_text cap))"
proof -
  have t: "transport sample_pending_env w
             (mk_request (sample_client b) ''res'' ''get''
                [(''id'', of_opt captchaId), (''action'', Str ''get'')])
           = (2, Body ''CAPCHA_NOT_READY'')"
    by (simp add: sample_pending_env_def mk_request_def)
  have v: "validateResponse (sample_client b) sample_pending_env ''CAPCHA_NOT_READY'' w1
             = (Inr False, w1)" for w1
    by (simp add: validateResponse_def response_message_def sample_pending_env_def
        sample_errors_def throwError_def)
  show ?thesis
    by (simp add: captcha_Body[OF t] v second_field_None)
qed

section \<open>Validation before the submission\<close>

lemma check_raises:
  "throwErrors c \<Longrightarrow> message \<noteq> ''Your captcha is not solved yet.'' \<Longrightarrow>
   check c True message w = (Inl (Error message), w)"
  by (simp add: check_def await_def throwError_def)

lemma check_passes: "check c False message w = (Inr (), w)"
  by (simp add: check_def resolve_def)

lemma loadCaptcha_no_source:
  assumes "\<not> truthy (get_prop options ''base64'')" "\<not> truthy (get_prop options ''buffer'')"
    "\<not> truthy (get_prop options ''path'')" "\<not> truthy (get_prop options ''url'')"
  shows "loadCaptcha c e options w =
     (case throwError c ''No image data received'' w of
        (Inl err, w1) \<Rightarrow> (Inl err, w1)
      | (Inr _, w1) \<Rightarrow> (Inr Undefined, w1))"
  using assms by (simp add: loadCaptcha_def await_def resolve_def split: prod.splits sum.splits)

text \<open>
  Claim C1, as the code has it. With \<^verbatim>\<open>throwErrors\<close> set, a reCAPTCHA v2 or v3 call whose
  \<^verbatim>\<open>googlekey\<close> or \<^verbatim>\<open>pageurl\<close> is the empty string, an hCaptcha call whose \<^verbatim>\<open>sitekey\<close> or
  \<^verbatim>\<open>pageurl\<close> is the empty string, and an image call with no truthy source among
  \<^verbatim>\<open>base64\<close>, \<^verbatim>\<open>buffer\<close>, \<^verbatim>\<open>path\<close> and \<^verbatim>\<open>url\<close> raise the validation error and leave
  the world as it was: no request has been handed to the transport.
\<close>

theorem validation_raises_before_network:
  assumes "throwErrors c"
  shows "(get_prop options ''googlekey'' = Str [] \<or> get_prop options ''pageurl'' = Str [] \<longrightarrow>
            decodeRecaptchaV2 c e options w =
              (Inl (Error (if get_prop options ''googlekey'' = Str []
                           then ''Missing googlekey parameter''
                           else ''Missing pageurl parameter'')), w)
          \<and> decodeRecaptchaV3 c e options w =
              (Inl (Error (if get_prop options ''googlekey'' = Str []
                           then ''Missing googlekey parameter''
                           else ''Missing pageurl parameter'')), w))
       \<and> (get_prop options ''sitekey'' = Str [] \<or> get_prop options ''pageurl'' = Str [] \<longrightarrow>
            decodeHCaptcha c e options w =
              (Inl (Error (if get_prop options ''sitekey'' = Str []
                           then ''Missing sitekey parameter''
                           else ''Missing pageurl parameter'')), w))
       \<and> (\<not> truthy (get_prop options ''base64'') \<and> \<not> truthy (get_prop options ''buffer'')
          \<and> \<not> truthy (get_prop options ''path'') \<and> \<not> truthy (get_prop options ''url'') \<longrightarrow>
            decode c e options w =
              (Inl (Error (if typeof (key c) = ''string''
                           then ''No image data received''
                           else ''2Captcha key must be a string'')), w))"
proof (intro conjI impI)
  assume a: "get_prop options ''googlekey'' = Str [] \<or> get_prop options ''pageurl'' = Str []"
  show "decodeRecaptchaV2 c e options w =
              (Inl (Error (if get_prop options ''googlekey'' = Str []
                           then ''Missing googlekey parameter''
                           else ''Missing pageurl parameter'')), w)"
  proof (cases "get_prop options ''googlekey'' = Str []")
    case True
    then show ?thesis using assms
      by (simp add: decodeRecaptchaV2_def await_def check_raises)
  next
    case False
    then show ?thesis using assms a
      by (simp add: decodeRecaptchaV2_def await_def check_raises check_passes)
  qed
  show "decodeRecaptchaV3 c e options w =
              (Inl (Error (if get_prop options ''googlekey'' = Str []
                           then ''Missing googlekey parameter''
                           else ''Missing pageurl parameter'')), w)"
  proof (cases "get_prop options ''googlekey'' = Str []")
    case True
    then show ?thesis using assms
      by (simp add: decodeRecaptchaV3_def await_def check_raises)
  next
    case False
    then show ?thesis using assms a
      by (simp add: decodeRecaptchaV3_def await_def check_raises check_passes)
  qed
next
  assume a: "get_prop options ''sitekey'' = Str [] \<or> get_prop options ''pageurl'' = Str []"
  show "decodeHCaptcha c e options w =
              (Inl (Error (if get_prop options ''sitekey'' = Str []
                           then ''Missing sitekey parameter''
                           else ''Missing pageurl parameter'')), w)"
  proof (cases "get_prop options ''sitekey'' = Str []")
    case True
    then show ?thesis using assms
      by (simp add: decodeHCaptcha_def await_def check_raises)
  next
    case False
    then show ?thesis using assms a
      by (simp add: decodeHCaptcha_def await_def check_raises check_passes)
  qed
next
  assume a: "\<not> truthy (get_prop options ''base64'') \<and> \<not> truthy (get_prop options ''buffer'')
          \<and> \<not> truthy (get_prop options ''path'') \<and> \<not> truthy (get_prop options ''url'')"
  show "decode c e options w =
              (Inl (Error (if typeof (key c) = ''string''
                           then ''No image data received''
                           else ''2Captcha key must be a string'')), w)"
  proof (cases "typeof (key c) = ''string''")
    case True
    then show ?thesis using assms a
      by (simp add: decode_def await_def check_passes loadCaptcha_no_source throwError_def)
  next
    case False
    then show ?thesis using assms
      by (simp add: decode_def await_def check_raises)
  qed
qed

text \<open>An empty \<^verbatim>\<open>googlekey\<close>, an empty \<^verbatim>\<open>pageurl\<close> and an empty \<^verbatim>\<open>base64\<close>.\<close>

theorem validation_raises_before_network_witness:
  "decodeRecaptchaV2 (sample_client True) (sample_env [''OK|77''] ''OK|ABCD1234'')
      [(''googlekey'', Str []), (''pageurl'', Str ''http://example.com'')] start
     = (Inl (Error ''Missing googlekey parameter''), start)
   \<and> decodeHCaptcha (sample_client True) (sample_env [''OK|77''] ''OK|ABCD1234'')
      [(''sitekey'', Str ''10000000-ffff''), (''pageurl'', Str [])] start
     = (Inl (Error ''Missing pageurl parameter''), start)
   \<and> decode (sample_client True) (sample_env [''OK|77''] ''OK|ABCD1234'') [(''base64'', Str [])] start
     = (Inl (Error ''No image data received''), start)
   \<and> traffic start = []"
proof -
  have t: "throwErrors (sample_client True)" by (simp add: sample_client_def)
  show ?thesis
    using validation_raises_before_network[OF t,
            of "[(''googlekey'', Str []), (''pageurl'', Str ''http://example.com'')]"
               "sample_env [''OK|77''] ''OK|ABCD1234''" start]
          validation_raises_before_network[OF t,
            of "[(''sitekey'', Str ''10000000-ffff''), (''pageurl'', Str [])]"
               "sample_env [''OK|77''] ''OK|ABCD1234''" start]
          validation_raises_before_network[OF t,
            of "[(''base64'', Str [])]" "sample_env [''OK|77''] ''OK|ABCD1234''" start]
    by (simp add: sample_client_def start_def)
qed

text \<open>
  Claim C1 as stated, for every configuration and for a field that is empty or missing,
  fails twice. Without \<^verbatim>\<open>throwErrors\<close> an empty \<^verbatim>\<open>googlekey\<close> is warned about and the
  call goes on: it submits, polls and returns a solution. With \<^verbatim>\<open>throwErrors\<close> a
  \<^verbatim>\<open>googlekey\<close> that is missing is not noticed, since \<^verbatim>\<open>undefined === ''\<close> is false, and
  the call submits and polls as well.
\<close>

theorem validation_counterexample:
  "fst (decodeRecaptchaV2 (sample_client False) (sample_env [''OK|77''] ''OK|ABCD1234'')
          [(''googlekey'', Str []), (''pageurl'', Str ''http://example.com'')] start)
     = Inr (Some \<lparr>captcha_id = Some ''77'', apiResponse = Some ''OK|ABCD1234'',
                   captcha_text = Some ''ABCD1234''\<rparr>)
   \<and> length (traffic (snd (decodeRecaptchaV2 (sample_client False)
          (sample_env [''OK|77''] ''OK|ABCD1234'')
          [(''googlekey'', Str []), (''pageurl'', Str ''http://example.com'')] start))) = 2
   \<and> warned (snd (decodeRecaptchaV2 (sample_client False)
          (sample_env [''OK|77''] ''OK|ABCD1234'')
          [(''googlekey'', Str []), (''pageurl'', Str ''http://example.com'')] start))
     = [''Missing googlekey parameter'']
   \<and> fst (decodeRecaptchaV2 (sample_client True) (sample_env [''OK|77''] ''OK|ABCD1234'')
          [(''pageurl'', Str ''http://example.com'')] start)
     = Inr (Some \<lparr>captcha_id = Some ''77'', apiResponse = Some ''OK|ABCD1234'',
                   captcha_text = Some ''ABCD1234''\<rparr>)
   \<and> length (traffic (snd (decodeRecaptchaV2 (sample_client True)
          (sample_env [''OK|77''] ''OK|ABCD1234'')
          [(''pageurl'', Str ''http://example.com'')] start))) = 2"
  by (simp add: run_defs sample_defs)

section \<open>The four sources of an image\<close>

lemma base64_empty_iff: "base64 bs = [] \<longleftrightarrow> bs = []"
  by (induction bs rule: base64.induct) (simp_all add: Let_def)

lemma poll_loop_traffic:
  "\<exists>more. traffic (snd (poll_loop c e startedAt ms cap w)) = traffic w @ more"
proof (induction c e startedAt ms cap w rule: poll_loop.induct)
  case (1 c e startedAt ms cap w)
  show ?case
  proof (cases "truthy (of_opt (captcha_text cap))")
    case True
    then show ?thesis by (simp add: poll_loop_done)
  next
    case False
    note nt = this
    show ?thesis
    proof (cases "timeout c < clock w + timer_delay ms - startedAt")
      case True
      then show ?thesis using nt by (simp add: poll_loop_timeout)
    next
      case False
      let ?w1 = "w\<lparr>clock := clock w + timer_delay ms, naps := naps w @ [ms]\<rparr>"
      obtain r w2 where cp: "captcha c e (captcha_id cap) ?w1 = (r, w2)"
        by (cases "captcha c e (captcha_id cap) ?w1")
      from captcha_frame(2)[OF cp] obtain rep where
        t2: "traffic w2 = traffic w @ [(poll_request c (captcha_id cap), rep)]"
        by auto
      show ?thesis
      proof (cases r)
        case (Inl err)
        then show ?thesis using nt False cp t2 by (simp add: poll_loop_step)
      next
        case (Inr nxt)
        have sl: "sleep ms w = (Inr (), ?w1)" by (simp add: sleep_eq)
        from "1.IH"[OF nt sl[symmetric] refl _ _ refl] False cp Inr
        obtain more where "traffic (snd (poll_loop c e startedAt ms nxt w2)) = traffic w2 @ more"
          by auto
        then show ?thesis using nt False cp Inr t2 by (simp add: poll_loop_step)
      qed
    qed
  qed
qed

lemma upload_then_loop_first_request:
  "\<exists>reply more.
     traffic (snd (await (upload c e opts) (\<lambda>cap. poll_loop c e startedAt ms cap) w))
       = traffic w @ (upload_request c opts, reply) # more"
proof -
  obtain r w1 where u: "upload c e opts w = (r, w1)" by (cases "upload c e opts w")
  from upload_frame(2)[OF u] obtain reply where
    t: "traffic w1 = traffic w @ [(upload_request c opts, reply)]" by blast
  show ?thesis
  proof (cases r)
    case (Inl err)
    then show ?thesis using u t by (simp add: await_def)
  next
    case (Inr cap)
    from poll_loop_traffic[of c e startedAt ms cap w1] obtain more where
      "traffic (snd (poll_loop c e startedAt ms cap w1)) = traffic w1 @ more" by blast
    then show ?thesis using u Inr t by (simp add: await_def)
  qed
qed

lemma image_upload_request:
  assumes "b \<noteq> []"
    and "options = [(''base64'', Str b)] \<or> options = [(''buffer'', buf)]
         \<or> options = [(''path'', p)] \<or> options = [(''url'', u)]"
  shows "upload_request c (assign ''base64'' (Str b) options) =
     \<lparr>url = ''https://rucaptcha.com/in.php'', http_timeout = timeout c, http_method = ''post'',
      payload = [(''body'', Str b), (''method'', Str ''base64''),
                 (''key'', key c), (''soft_id'', Num 2386)]\<rparr>"
  using assms by (auto simp: upload_request_def upload_args_def mk_request_def)

lemma load_bytes_Some:
  "snd (loader w src) = Some bs \<Longrightarrow>
   load_bytes loader src w = (Inr bs, w\<lparr>clock := clock w + int (fst (loader w src))\<rparr>)"
  by (cases "loader w src") (simp add: load_bytes_def)

lemma decode_from_source:
  assumes "typeof (key c) = ''string''"
    and "loadCaptcha c e options w = (Inr b64, w0)"
  shows "decode c e options w =
     await (upload c e (assign ''base64'' b64 options))
       (\<lambda>cap. poll_loop c e (clock w) (polling c) cap) w0"
  using assms by (simp add: decode_def await_def check_passes)

text \<open>
  Claim C6, as the code has it. Let the same bytes, not empty, be given to \<^verbatim>\<open>decode\<close> in
  one of four ways: already encoded as \<^verbatim>\<open>base64\<close>, as a \<^verbatim>\<open>buffer\<close>, as the \<^verbatim>\<open>path\<close> of a
  file that holds them, or as a \<^verbatim>\<open>url\<close> from which they are fetched. Then the first
  request handed to the transport is the same in all four cases: the submission whose
  payload has the base64 encoding of the bytes as its \<^verbatim>\<open>body\<close>, with the method
  \<^verbatim>\<open>base64\<close>.
\<close>

theorem image_sources_converge:
  assumes "bytes \<noteq> []" and "typeof (key c) = ''string''"
    and "path \<noteq> []" and "snd (readFile e w (Str path)) = Some bytes"
    and "link \<noteq> []" and "snd (openDataURL e w (Str link)) = Some bytes"
    and "options = [(''base64'', Str (base64 bytes))] \<or> options = [(''buffer'', Buf bytes)]
         \<or> options = [(''path'', Str path)] \<or> options = [(''url'', Str link)]"
  shows "\<exists>reply more.
     traffic (snd (decode c e options w)) =
       traffic w @
       (\<lparr>url = ''https://rucaptcha.com/in.php'', http_timeout = timeout c, http_method = ''post'',
         payload = [(''body'', Str (base64 bytes)), (''method'', Str ''base64''),
                    (''key'', key c), (''soft_id'', Num 2386)]\<rparr>, reply) # more"
proof -
  have ne: "base64 bytes \<noteq> []" using assms(1) by (simp add: base64_empty_iff)
  have "\<exists>w0. loadCaptcha c e options w = (Inr (Str (base64 bytes)), w0) \<and> traffic w0 = traffic w"
    using assms(7)
  proof (elim disjE)
    assume "options = [(''base64'', Str (base64 bytes))]"
    then show ?thesis using ne by (simp add: loadCaptcha_def resolve_def)
  next
    assume "options = [(''buffer'', Buf bytes)]"
    then show ?thesis by (simp add: loadCaptcha_def resolve_def)
  next
    assume "options = [(''path'', Str path)]"
    then show ?thesis using assms(3,4)
      by (simp add: loadCaptcha_def load_bytes_Some await_def resolve_def)
  next
    assume "options = [(''url'', Str link)]"
    then show ?thesis using assms(5,6)
      by (simp add: loadCaptcha_def load_bytes_Some await_def resolve_def)
  qed
  then obtain w0 where l: "loadCaptcha c e options w = (Inr (Str (base64 bytes)), w0)"
    and t: "traffic w0 = traffic w" by blast
  have r: "upload_request c (assign ''base64'' (Str (base64 bytes)) options) =
     \<lparr>url = ''https://rucaptcha.com/in.php'', http_timeout = timeout c, http_method = ''post'',
      payload = [(''body'', Str (base64 bytes)), (''method'', Str ''base64''),
                 (''key'', key c), (''soft_id'', Num 2386)]\<rparr>"
    using ne assms(7) by (intro image_upload_request) auto
  show ?thesis
    using upload_then_loop_first_request[of c e "assign ''base64'' (Str (base64 bytes)) options"
        "clock w" "polling c" w0]
    unfolding decode_from_source[OF assms(2) l] r t .
qed

text \<open>The bytes of \<^verbatim>\<open>Man\<close>, read from a file and given as \<^verbatim>\<open>TWFu\<close>.\<close>

theorem image_sources_converge_witness:
  "(\<exists>reply more.
      traffic (snd (decode (sample_client True) (sample_env [''OK|77''] ''OK|ABCD1234'')
                      [(''path'', Str ''/tmp/captcha.png'')] start)) =
        (\<lparr>url = ''https://rucaptcha.com/in.php'', http_timeout = 50, http_method = ''post'',
          payload = [(''body'', Str ''TWFu''), (''method'', Str ''base64''),
                     (''key'', Str ''0123456789abcdef''), (''soft_id'', Num 2386)]\<rparr>, reply) # more)
   \<and> (\<exists>reply more.
      traffic (snd (decode (sample_client True) (sample_env [''OK|77''] ''OK|ABCD1234'')
                      [(''base64'', Str ''TWFu'')] start)) =
        (\<lparr>url = ''https://rucaptcha.com/in.php'', http_timeout = 50, http_method = ''post'',
          payload = [(''body'', Str ''TWFu''), (''method'', Str ''base64''),
                     (''key'', Str ''0123456789abcdef''), (''soft_id'', Num 2386)]\<rparr>, reply) # more)"
proof -
  let ?e = "sample_env [''OK|77''] ''OK|ABCD1234''"
  have b: "sample_bytes \<noteq> []" by (simp add: sample_bytes_def)
  have k: "typeof (key (sample_client True)) = ''string''" by (simp add: sample_client_def)
  have p: "''/tmp/captcha.png'' \<noteq> []" and u: "''http://example.com/captcha.png'' \<noteq> []" by simp_all
  have f: "snd (readFile ?e start (Str ''/tmp/captcha.png'')) = Some sample_bytes"
    by (simp add: sample_env_def sample_loader_def)
  have g: "snd (openDataURL ?e start (Str ''http://example.com/captcha.png'')) = Some sample_bytes"
    by (simp add: sample_env_def sample_loader_def)
  have enc: "base64 sample_bytes = ''TWFu''"
    by (simp add: sample_bytes_def b64_char_def b64_alphabet_def)
  have 1: "[(''path'', Str ''/tmp/captcha.png'')] = [(''base64'', Str (base64 sample_bytes))]
         \<or> [(''path'', Str ''/tmp/captcha.png'')] = [(''buffer'', Buf sample_bytes)]
         \<or> [(''path'', Str ''/tmp/captcha.png'')] = [(''path'', Str ''/tmp/captcha.png'')]
         \<or> [(''path'', Str ''/tmp/captcha.png'')] = [(''url'', Str ''http://example.com/captcha.png'')]"
    by simp
  have 2: "[(''base64'', Str ''TWFu'')] = [(''base64'', Str (base64 sample_bytes))]
         \<or> [(''base64'', Str ''TWFu'')] = [(''buffer'', Buf sample_bytes)]
         \<or> [(''base64'', Str ''TWFu'')] = [(''path'', Str ''/tmp/captcha.png'')]
         \<or> [(''base64'', Str ''TWFu'')] = [(''url'', Str ''http://example.com/captcha.png'')]"
    by (simp add: enc)
  show ?thesis
    using image_sources_converge[OF b k p f u g 1] image_sources_converge[OF b k p f u g 2]
    by (simp add: enc sample_client_def start_def)
qed

text \<open>
  Claim C6 as stated, for every byte sequence, fails on the empty one. Its base64
  encoding is the empty string, which is falsy: given as \<^verbatim>\<open>base64\<close> it is no image data,
  and with \<^verbatim>\<open>throwErrors\<close> the call raises before any request; given as an empty
  \<^verbatim>\<open>buffer\<close>, which is truthy, the call submits a payload without a \<^verbatim>\<open>body\<close> and polls.
\<close>

theorem image_sources_counterexample:
  "base64 [] = []
   \<and> decode (sample_client True) (sample_env [''OK|77''] ''OK|ABCD1234'')
        [(''base64'', Str (base64 []))] start
     = (Inl (Error ''No image data received''), start)
   \<and> traffic start = []
   \<and> map fst (traffic (snd (decode (sample_client True) (sample_env [''OK|77''] ''OK|ABCD1234'')
        [(''buffer'', Buf [])] start)))
     = [\<lparr>url = ''https://rucaptcha.com/in.php'', http_timeout = 50, http_method = ''post'',
          payload = [(''method'', Str ''base64''), (''key'', Str ''0123456789abcdef''),
                     (''soft_id'', Num 2386)]\<rparr>,
        poll_request (sample_client True) (Some ''77'')]"
  by (simp add: run_defs sample_defs poll_request_def)

section \<open>Getting to the polling loop\<close>

lemma poll_loop_counts:
  assumes "poll_loop c e startedAt ms cap w = (r, w')"
  shows "\<exists>n. naps w' = naps w @ replicate n ms
           \<and> length (traffic w') \<le> length (traffic w) + n
           \<and> length (traffic w) + n \<le> Suc (length (traffic w'))
           \<and> clock w + int n * timer_delay ms \<le> clock w'
           \<and> (\<not> truthy (of_opt (captcha_text cap)) \<longrightarrow> 1 \<le> n)"
  using assms
proof (induction c e startedAt ms cap w rule: poll_loop.induct)
  case (1 c e startedAt ms cap w)
  show ?case
  proof (cases "truthy (of_opt (captcha_text cap))")
    case True
    then have "w' = w" using "1.prems" by (simp add: poll_loop_done)
    then show ?thesis using True by (intro exI[of _ 0]) simp
  next
    case False
    note nt = this
    let ?w1 = "w\<lparr>clock := clock w + timer_delay ms, naps := naps w @ [ms]\<rparr>"
    show ?thesis
    proof (cases "timeout c < clock w + timer_delay ms - startedAt")
      case True
      then have "naps w' = naps w @ [ms] \<and> traffic w' = traffic w
                 \<and> clock w' = clock w + timer_delay ms"
        using "1.prems" nt by (auto simp: poll_loop_timeout split: if_splits)
      then show ?thesis by (intro exI[of _ 1]) simp
    next
      case False
      obtain r1 w2 where cp: "captcha c e (captcha_id cap) ?w1 = (r1, w2)"
        by (cases "captcha c e (captcha_id cap) ?w1")
      have f1: "clock w + timer_delay ms \<le> clock w2" and f3: "naps w2 = naps w @ [ms]"
        using captcha_frame(1,3)[OF cp] by simp_all
      from captcha_frame(2)[OF cp] have f2: "length (traffic w2) = Suc (length (traffic w))"
        by auto
      show ?thesis
      proof (cases r1)
        case (Inl err)
        then have "w' = w2" using "1.prems" nt False cp by (simp add: poll_loop_step)
        then show ?thesis using f1 f2 f3 by (intro exI[of _ 1]) simp
      next
        case (Inr nxt)
        have run: "poll_loop c e startedAt ms nxt w2 = (r, w')"
          using "1.prems" nt False cp Inr by (simp add: poll_loop_step)
        have sl: "sleep ms w = (Inr (), ?w1)" by (simp add: sleep_eq)
        from "1.IH"[OF nt sl[symmetric] refl _ _ refl run] False cp Inr
        obtain n where n: "naps w' = naps w2 @ replicate n ms"
           "length (traffic w') \<le> length (traffic w2) + n"
           "length (traffic w2) + n \<le> Suc (length (traffic w'))"
           "clock w2 + int n * timer_delay ms \<le> clock w'"
          by auto
        have "clock w + int (Suc n) * timer_delay ms \<le> clock w'"
          using n(4) f1 by (simp add: algebra_simps)
        then show ?thesis using n f2 f3
          by (intro exI[of _ "Suc n"]) (simp add: replicate_app_Cons_same)
      qed
    qed
  qed
qed

lemma check_goes_on:
  assumes "throwErrors c \<longrightarrow> \<not> cond" and "message \<noteq> ''Your captcha is not solved yet.''"
  shows "\<exists>w1. check c cond message w = (Inr (), w1)
           \<and> clock w1 = clock w \<and> traffic w1 = traffic w \<and> naps w1 = naps w"
  using assms by (auto simp: check_def await_def resolve_def throwError_def)

lemma upload_accepted:
  assumes "\<And>opts w. \<exists>d body. transport e w (upload_request c opts) = (d, Body body)
              \<and> response_message e body = None"
  shows "\<exists>cap0 w1. upload c e opts w = (Inr cap0, w1)"
proof -
  from assms[of w opts] obtain d body where
    t: "transport e w (mk_request c ''in'' ''post'' (upload_args opts)) = (d, Body body)"
    and v: "response_message e body = None"
    unfolding upload_request_def by blast
  show ?thesis
    by (simp add: upload_Body[OF t] validateResponse_valid[OF v])
qed

lemma decodeRecaptchaV2_gets_to_loop:
  assumes acc: "\<And>opts w. \<exists>d body. transport e w (upload_request c opts) = (d, Body body)
              \<and> response_message e body = None"
    and ok: "throwErrors c \<longrightarrow> get_prop options ''googlekey'' \<noteq> Str []
                                 \<and> get_prop options ''pageurl'' \<noteq> Str []"
  shows "\<exists>opts w0 cap0 w1. clock w \<le> clock w0 \<and> traffic w0 = traffic w \<and> naps w0 = naps w
           \<and> upload c e opts w0 = (Inr cap0, w1)
           \<and> decodeRecaptchaV2 c e options w = poll_loop c e (clock w) (max (polling c) 10) cap0 w1"
proof -
  from check_goes_on[of c "get_prop options ''googlekey'' = Str []" "''Missing googlekey parameter''" w] ok
  obtain w1 where 1: "check c (get_prop options ''googlekey'' = Str []) ''Missing googlekey parameter'' w
                        = (Inr (), w1)"
    and f1: "clock w1 = clock w" "traffic w1 = traffic w" "naps w1 = naps w"
    by auto
  from check_goes_on[of c "get_prop options ''pageurl'' = Str []" "''Missing pageurl parameter''" w1] ok
  obtain w2 where 2: "check c (get_prop options ''pageurl'' = Str []) ''Missing pageurl parameter'' w1
                        = (Inr (), w2)"
    and f2: "clock w2 = clock w1" "traffic w2 = traffic w1" "naps w2 = naps w1"
    by auto
  let ?opts = "[(''method'', Str ''userrecaptcha''),
                     (''googlekey'', get_prop options ''googlekey''),
                     (''pageurl'', get_prop options ''pageurl''),
                     (''invisible'', flag (get_prop options ''invisible'')),
                     (''enterprise'', flag (get_prop options ''enterprise''))]"
  from upload_accepted[OF acc, of ?opts w2] obtain cap0 w3 where
    3: "upload c e ?opts w2 = (Inr cap0, w3)" by blast
  have "decodeRecaptchaV2 c e options w = poll_loop c e (clock w) (max (polling c) 10) cap0 w3"
    by (simp add: decodeRecaptchaV2_def await_def 1 2 3)
  then show ?thesis
    using 3 f1 f2 by (intro exI[of _ ?opts] exI[of _ w2] exI[of _ cap0] exI[of _ w3]) simp
qed

lemma decodeRecaptchaV3_gets_to_loop:
  assumes acc: "\<And>opts w. \<exists>d body. transport e w (upload_request c opts) = (d, Body body)
              \<and> response_message e body = None"
    and ok: "throwErrors c \<longrightarrow> get_prop options ''googlekey'' \<noteq> Str []
                                 \<and> get_prop options ''pageurl'' \<noteq> Str []"
  shows "\<exists>opts w0 cap0 w1. clock w \<le> clock w0 \<and> traffic w0 = traffic w \<and> naps w0 = naps w
           \<and> upload c e opts w0 = (Inr cap0, w1)
           \<and> decodeRecaptchaV3 c e options w = poll_loop c e (clock w) (max (polling c) 10) cap0 w1"
proof -
  from check_goes_on[of c "get_prop options ''googlekey'' = Str []" "''Missing googlekey parameter''" w] ok
  obtain w1 where 1: "check c (get_prop options ''googlekey'' = Str []) ''Missing googlekey parameter'' w
                        = (Inr (), w1)"
    and f1: "clock w1 = clock w" "traffic w1 = traffic w" "naps w1 = naps w"
    by auto
  from check_goes_on[of c "get_prop options ''pageurl'' = Str []" "''Missing pageurl parameter''" w1] ok
  obtain w2 where 2: "check c (get_prop options ''pageurl'' = Str []) ''Missing pageurl parameter'' w1
                        = (Inr (), w2)"
    and f2: "clock w2 = clock w1" "traffic w2 = traffic w1" "naps w2 = naps w1"
    by auto
  let ?opts = "[(''method'', Str ''userrecaptcha''),
                     (''googlekey'', get_prop options ''googlekey''),
                     (''pageurl'', get_prop options ''pageurl''),
                     (''version'', Str ''v3''),
                     (''action'', if truthy (get_prop options ''action'')
                                  then get_prop options ''action'' else Str []),
                     (''enterprise'', flag (get_prop options ''enterprise''))]"
  from upload_accepted[OF acc, of ?opts w2] obtain cap0 w3 where
    3: "upload c e ?opts w2 = (Inr cap0, w3)" by blast
  have "decodeRecaptchaV3 c e options w = poll_loop c e (clock w) (max (polling c) 10) cap0 w3"
    by (simp add: decodeRecaptchaV3_def await_def 1 2 3)
  then show ?thesis
    using 3 f1 f2 by (intro exI[of _ ?opts] exI[of _ w2] exI[of _ cap0] exI[of _ w3]) simp
qed

lemma decodeHCaptcha_gets_to_loop:
  assumes acc: "\<And>opts w. \<exists>d body. transport e w (upload_request c opts) = (d, Body body)
              \<and> response_message e body = None"
    and ok: "throwErrors c \<longrightarrow> get_prop options ''sitekey'' \<noteq> Str []
                                 \<and> get_prop options ''pageurl'' \<noteq> Str []"
  shows "\<exists>opts w0 cap0 w1. clock w \<le> clock w0 \<and> traffic w0 = traffic w \<and> naps w0 = naps w
           \<and> upload c e opts w0 = (Inr cap0, w1)
           \<and> decodeHCaptcha c e options w = poll_loop c e (clock w) (max (polling c) 10) cap0 w1"
proof -
  from check_goes_on[of c "get_prop options ''sitekey'' = Str []" "''Missing sitekey parameter''" w] ok
  obtain w1 where 1: "check c (get_prop options ''sitekey'' = Str []) ''Missing sitekey parameter'' w
                        = (Inr (), w1)"
    and f1: "clock w1 = clock w" "traffic w1 = traffic w" "naps w1 = naps w"
    by auto
  from check_goes_on[of c "get_prop options ''pageurl'' = Str []" "''Missing pageurl parameter''" w1] ok
  obtain w2 where 2: "check c (get_prop options ''pageurl'' = Str []) ''Missing pageurl parameter'' w1
                        = (Inr (), w2)"
    and f2: "clock w2 = clock w1" "traffic w2 = traffic w1" "naps w2 = naps w1"
    by auto
  let ?opts = "[(''method'', Str ''hcaptcha''),
                     (''sitekey'', get_prop options ''sitekey''),
                     (''pageurl'', get_prop options ''pageurl''),
                     (''invisible'', flag (get_prop options ''invisible''))]"
  from upload_accepted[OF acc, of ?opts w2] obtain cap0 w3 where
    3: "upload c e ?opts w2 = (Inr cap0, w3)" by blast
  have "decodeHCaptcha c e options w = poll_loop c e (clock w) (max (polling c) 10) cap0 w3"
    by (simp add: decodeHCaptcha_def await_def 1 2 3)
  then show ?thesis
    using 3 f1 f2 by (intro exI[of _ ?opts] exI[of _ w2] exI[of _ cap0] exI[of _ w3]) simp
qed

lemma decode_gets_to_loop:
  assumes acc: "\<And>opts w. \<exists>d body. transport e w (upload_request c opts) = (d, Body body)
              \<and> response_message e body = None"
    and ok: "throwErrors c \<longrightarrow> typeof (key c) = ''string''"
    and loads: "\<And>w. \<exists>b64 w0. loadCaptcha c e options w = (Inr b64, w0)"
  shows "\<exists>opts w0 cap0 w1. clock w \<le> clock w0 \<and> traffic w0 = traffic w \<and> naps w0 = naps w
           \<and> upload c e opts w0 = (Inr cap0, w1)
           \<and> decode c e options w = poll_loop c e (clock w) (polling c) cap0 w1"
proof -
  from check_goes_on[of c "typeof (key c) \<noteq> ''string''" "''2Captcha key must be a string''" w] ok
  obtain w1 where 1: "check c (typeof (key c) \<noteq> ''string'') ''2Captcha key must be a string'' w
                        = (Inr (), w1)"
    and f1: "clock w1 = clock w" "traffic w1 = traffic w" "naps w1 = naps w"
    by auto
  from loads[of w1] obtain b64 w2 where 2: "loadCaptcha c e options w1 = (Inr b64, w2)" by blast
  note f2 = loadCaptcha_frame[OF 2]
  from upload_accepted[OF acc, of "assign ''base64'' b64 options" w2] obtain cap0 w3 where
    3: "upload c e (assign ''base64'' b64 options) w2 = (Inr cap0, w3)" by blast
  have "decode c e options w = poll_loop c e (clock w) (polling c) cap0 w3"
    by (simp add: decode_def await_def 1 2 3)
  then show ?thesis
    using 3 f1 f2
    by (intro exI[of _ "assign ''base64'' b64 options"] exI[of _ w2] exI[of _ cap0] exI[of _ w3]) simp
qed

lemma gets_to_polling_loop:
  assumes "gets_to_polling c e operation ms options"
  shows "\<exists>opts w0 cap0 w1. clock w \<le> clock w0 \<and> traffic w0 = traffic w \<and> naps w0 = naps w
           \<and> upload c e opts w0 = (Inr cap0, w1)
           \<and> operation c e options w = poll_loop c e (clock w) ms cap0 w1"
proof -
  from assms have acc: "\<And>opts w. \<exists>d body. transport e w (upload_request c opts) = (d, Body body)
              \<and> response_message e body = None"
    unfolding gets_to_polling_def by blast
  from assms consider
      (image) "operation = decode" "ms = polling c"
        "throwErrors c \<longrightarrow> typeof (key c) = ''string''"
        "\<And>w. \<exists>b64 w0. loadCaptcha c e options w = (Inr b64, w0)"
    | (v2) "operation = decodeRecaptchaV2" "ms = max (polling c) 10"
        "throwErrors c \<longrightarrow> get_prop options ''googlekey'' \<noteq> Str []
                                 \<and> get_prop options ''pageurl'' \<noteq> Str []"
    | (v3) "operation = decodeRecaptchaV3" "ms = max (polling c) 10"
        "throwErrors c \<longrightarrow> get_prop options ''googlekey'' \<noteq> Str []
                                 \<and> get_prop options ''pageurl'' \<noteq> Str []"
    | (h) "operation = decodeHCaptcha" "ms = max (polling c) 10"
        "throwErrors c \<longrightarrow> get_prop options ''sitekey'' \<noteq> Str []
                                 \<and> get_prop options ''pageurl'' \<noteq> Str []"
    unfolding gets_to_polling_def by blast
  then show ?thesis
  proof cases
    case image
    show ?thesis unfolding image(1,2) by (rule decode_gets_to_loop[OF acc image(3,4)])
  next
    case v2
    show ?thesis unfolding v2(1,2) by (rule decodeRecaptchaV2_gets_to_loop[OF acc v2(3)])
  next
    case v3
    show ?thesis unfolding v3(1,2) by (rule decodeRecaptchaV3_gets_to_loop[OF acc v3(3)])
  next
    case h
    show ?thesis unfolding h(1,2) by (rule decodeHCaptcha_gets_to_loop[OF acc h(3)])
  qed
qed

lemma sample_pending_accepts:
  "\<exists>d body. transport sample_pending_env w (upload_request c opts) = (d, Body body)
      \<and> response_message sample_pending_env body = None"
  by (simp add: sample_pending_env_def upload_request_def mk_request_def response_message_def
      sample_errors_def)

section \<open>Termination with a timeout\<close>

text \<open>
  Claim C5. Every operation is a total function of the world, so each call ends. Let a
  call of one of the four operations get past its checks and its submission (the
  submission is accepted), and let every poll return a Captcha without text (pending).
  Then the outcome of the call is the timeout and nothing else: the error
  \<^verbatim>\<open>Captcha timeout\<close> when \<^verbatim>\<open>throwErrors\<close> is set, and otherwise the result \<^verbatim>\<open>undefined\<close>
  with \<^verbatim>\<open>Captcha timeout\<close> as the last warning. The call has sent at most
  \<open>1 + timeout div d\<close> requests, \<open>d\<close> being the delay of one sleep, so its loop has made
  at most \<open>timeout div d\<close> polls. The timeout is tested once per iteration, after the
  sleep and before the poll: the call has slept, once more than it has polled, and at
  its end more than \<open>timeout\<close> milliseconds have gone by since its start.
\<close>

theorem always_pending_times_out:
  assumes pending: "\<And>captchaId w. \<exists>cap w'. captcha c e captchaId w = (Inr cap, w')
                      \<and> \<not> truthy (of_opt (captcha_text cap))"
      and submitted: "gets_to_polling c e operation ms options"
      and run: "operation c e options w = (r, w')"
  shows "r = (if throwErrors c then Inl (Error ''Captcha timeout'') else Inr None)
       \<and> (\<not> throwErrors c \<longrightarrow> warned w' \<noteq> [] \<and> last (warned w') = ''Captcha timeout'')
       \<and> length (traffic w') \<le> Suc (length (traffic w)) + nat (timeout c div timer_delay ms)
       \<and> length (naps w') - length (naps w) = length (traffic w') - length (traffic w)
       \<and> naps w' \<noteq> naps w
       \<and> timeout c < clock w' - clock w"
proof -
  from gets_to_polling_loop[OF submitted, of w] obtain opts w0 cap0 w1 where
    a: "clock w \<le> clock w0" "traffic w0 = traffic w" "naps w0 = naps w"
    and u: "upload c e opts w0 = (Inr cap0, w1)"
    and l: "operation c e options w = poll_loop c e (clock w) ms cap0 w1"
    by blast
  have nt: "\<not> truthy (of_opt (captcha_text cap0))"
    using upload_Inr[OF u] by simp
  have l': "poll_loop c e (clock w) ms cap0 w1 = (r, w')" using l run by simp
  note P = poll_loop_always_pending[OF pending nt l']
  from upload_frame(2)[OF u] have t1: "length (traffic w1) = Suc (length (traffic w))"
    using a by auto
  have n1: "naps w1 = naps w" using upload_frame(3)[OF u] a by simp
  have c1: "clock w \<le> clock w1" using upload_frame(1)[OF u] a by simp
  have "(timeout c - (clock w1 - clock w)) div timer_delay ms \<le> timeout c div timer_delay ms"
    using c1 timer_delay_pos[of ms] by (intro zdiv_mono1) simp_all
  then have "nat ((timeout c - (clock w1 - clock w)) div timer_delay ms)
               \<le> nat (timeout c div timer_delay ms)"
    by simp
  moreover have "naps w' \<noteq> naps w"
  proof -
    from poll_loop_counts[OF l'] nt obtain n where "naps w' = naps w1 @ replicate n ms" "1 \<le> n"
      by blast
    then have "length (naps w') = length (naps w) + n" using n1 by simp
    then show ?thesis using \<open>1 \<le> n\<close> by auto
  qed
  ultimately show ?thesis using P t1 n1 by auto
qed

text \<open>
  With a timeout of 50 ms and an interval of 20 ms: an image call with \<^verbatim>\<open>throwErrors\<close>
  raises the timeout after at most three requests, and an hCaptcha call without it warns
  and returns \<^verbatim>\<open>undefined\<close>.
\<close>

theorem always_pending_times_out_witness:
  "fst (decode (sample_client True) sample_pending_env [(''base64'', Str ''TWFu'')] start)
     = Inl (Error ''Captcha timeout'')
   \<and> length (traffic (snd (decode (sample_client True) sample_pending_env
                              [(''base64'', Str ''TWFu'')] start))) \<le> 3
   \<and> fst (decodeHCaptcha (sample_client False) sample_pending_env
            [(''sitekey'', Str ''10000000-ffff''), (''pageurl'', Str ''http://example.com'')] start)
     = Inr None
   \<and> last (warned (snd (decodeHCaptcha (sample_client False) sample_pending_env
            [(''sitekey'', Str ''10000000-ffff''), (''pageurl'', Str ''http://example.com'')] start)))
     = ''Captcha timeout''"
proof -
  let ?img = "[(''base64'', Str ''TWFu'')]"
  let ?hc = "[(''sitekey'', Str ''10000000-ffff''), (''pageurl'', Str ''http://example.com'')]"
  have g1: "gets_to_polling (sample_client True) sample_pending_env decode
              (polling (sample_client True)) ?img"
    unfolding gets_to_polling_def
    by (intro conjI allI sample_pending_accepts disjI1)
       (simp_all add: sample_client_def loadCaptcha_def resolve_def)
  have g2: "gets_to_polling (sample_client False) sample_pending_env decodeHCaptcha
              (max (polling (sample_client False)) 10) ?hc"
    unfolding gets_to_polling_def
    by (intro conjI allI sample_pending_accepts disjI2)
       (simp_all add: sample_client_def)
  note t1 = always_pending_times_out[OF sample_pending g1 prod.collapse[symmetric], of start]
  note t2 = always_pending_times_out[OF sample_pending g2 prod.collapse[symmetric], of start]
  have d: "nat (timeout (sample_client True) div timer_delay (polling (sample_client True))) = 2"
    by (simp add: sample_client_def timer_delay_def)
  have tr: "traffic start = []" by (simp add: start_def)
  have a: "fst (decode (sample_client True) sample_pending_env ?img start)
             = Inl (Error ''Captcha timeout'')"
    using t1 by (simp add: sample_client_def)
  have b: "length (traffic (snd (decode (sample_client True) sample_pending_env ?img start))) \<le> 3"
    using t1 unfolding d tr by simp
  have c: "fst (decodeHCaptcha (sample_client False) sample_pending_env ?hc start) = Inr None"
    using t2 by (simp add: sample_client_def)
  have e: "last (warned (snd (decodeHCaptcha (sample_client False) sample_pending_env ?hc start)))
             = ''Captcha timeout''"
    using t2 by (simp add: sample_client_def)
  show ?thesis
    using a b c e by simp
qed

section \<open>Sleeps and polls of a call\<close>








end
